theory Spec2Isabelle
  imports Complex_Main "HOL-Library.Word" "HOL-Library.AList"
begin

unbundle bit_operations_syntax

section \<open>Canonical payload builder\<close>

text \<open>
  The argument object of \<^verbatim>\<open>buildDeviceAuthPayload\<close>. The field \<^verbatim>\<open>deviceId\<close> is
  written \<open>param_deviceId\<close> here, because the identity record below has a field of
  the same name. \<^verbatim>\<open>token: string | null\<close> and \<^verbatim>\<open>nonce?: string\<close> are options:
  \<open>None\<close> is \<^verbatim>\<open>null\<close> (or an absent property). \<^verbatim>\<open>signedAtMs\<close> is an epoch
  millisecond count: the model takes it from the safe integers (magnitude below
  \<open>2^53\<close>), which a JavaScript number holds exactly and for which \<^verbatim>\<open>String(n)\<close> is the
  decimal notation. Fractions, \<^verbatim>\<open>NaN\<close>, the infinities and the exponent notation that
  \<^verbatim>\<open>String\<close> uses from \<open>10^21\<close> on are outside the model.
\<close>

record params =
  param_deviceId :: string
  clientId :: string
  clientMode :: string
  role :: string
  scopes :: "string list"
  signedAtMs :: int
  token :: "string option"
  nonce :: "string option"

text \<open>\<^verbatim>\<open>Array.prototype.join\<close> on an array of strings.\<close>

fun join :: "string \<Rightarrow> string list \<Rightarrow> string" where
  "join sep [] = []"
| "join sep [x] = x"
| "join sep (x # y # ys) = x @ sep @ join sep (y # ys)"

text \<open>Decimal digits of a natural number, most significant first.\<close>

function decimal :: "nat \<Rightarrow> string" where
  "decimal n =
     (if n < 10 then [''0123456789'' ! n]
      else decimal (n div 10) @ [''0123456789'' ! (n mod 10)])"
  by pat_completeness auto
termination
  by (relation "measure id") auto

declare decimal.simps [simp del]

text \<open>\<^verbatim>\<open>String(n)\<close> for an integer \<open>n\<close>.\<close>

definition String_number :: "int \<Rightarrow> string" where
  "String_number n = (if n < 0 then ''-'' @ decimal (nat (- n)) else decimal (nat n))"

text \<open>
  A string is truthy when it is not empty; an absent or \<^verbatim>\<open>null\<close> one is falsy.
\<close>

fun truthy_string :: "string option \<Rightarrow> bool" where
  "truthy_string None = False"
| "truthy_string (Some s) = (s \<noteq> [])"

text \<open>\<^verbatim>\<open>x ?? ''\<close>: the value, or the empty string for \<^verbatim>\<open>null\<close> and \<^verbatim>\<open>undefined\<close>.\<close>

fun or_empty :: "string option \<Rightarrow> string" where
  "or_empty None = []"
| "or_empty (Some s) = s"

definition version :: "params \<Rightarrow> string" where
  "version p = (if truthy_string (nonce p) then ''v2'' else ''v1'')"

text \<open>The array \<^verbatim>\<open>base\<close> as it is when \<^verbatim>\<open>join\<close> is called on it.\<close>

definition payloadFields :: "params \<Rightarrow> string list" where
  "payloadFields p =
     (let scopeStr = join '','' (scopes p);
          base = [version p, param_deviceId p, clientId p, clientMode p, role p, scopeStr,
                  String_number (signedAtMs p), or_empty (token p)]
      in if version p = ''v2'' then base @ [or_empty (nonce p)] else base)"

definition buildDeviceAuthPayload :: "params \<Rightarrow> string" where
  "buildDeviceAuthPayload p = join ''|'' (payloadFields p)"

section \<open>Device identity\<close>

subsection \<open>Run-time values\<close>

text \<open>
  What \<^verbatim>\<open>JSON.parse\<close> returns is untyped at run time, and the annotations of
  \<^verbatim>\<open>DeviceIdentity\<close> are erased: the fields copied from a parsed record hold whatever
  value the file had there. A finite number is a rational.
\<close>

datatype jsvalue =
  JUndefined
| JNull
| JBool bool
| JNum rat
| JStr string
| JArr "jsvalue list"
| JObj "(string \<times> jsvalue) list"

text \<open>Truthiness, as \<^verbatim>\<open>&&\<close> tests it.\<close>

fun truthy :: "jsvalue \<Rightarrow> bool" where
  "truthy JUndefined = False"
| "truthy JNull = False"
| "truthy (JBool b) = b"
| "truthy (JNum n) = (n \<noteq> 0)"
| "truthy (JStr s) = (s \<noteq> [])"
| "truthy (JArr xs) = True"
| "truthy (JObj kvs) = True"

text \<open>
  Reading one of the properties \<^verbatim>\<open>version\<close>, \<^verbatim>\<open>deviceId\<close>, \<^verbatim>\<open>publicKeyPem\<close>,
  \<^verbatim>\<open>privateKeyPem\<close> of a parsed value: an object gives the property or \<^verbatim>\<open>undefined\<close>;
  \<^verbatim>\<open>parsed?.version\<close> is \<^verbatim>\<open>undefined\<close> for \<^verbatim>\<open>null\<close>, and a number, string, boolean or
  array has none of these properties. The other three reads happen only after
  \<^verbatim>\<open>version === 1\<close> held, that is on an object.
\<close>

fun getProp :: "jsvalue \<Rightarrow> string \<Rightarrow> jsvalue" where
  "getProp (JObj kvs) k = (case map_of kvs k of None \<Rightarrow> JUndefined | Some v \<Rightarrow> v)"
| "getProp v k = JUndefined"

subsection \<open>The platform\<close>

text \<open>
  The calls into Node's \<^verbatim>\<open>crypto\<close>, \<^verbatim>\<open>path\<close>, \<^verbatim>\<open>JSON\<close> and \<^verbatim>\<open>Date\<close> are parameters
  of the model; \<open>None\<close> is a call that throws.
  \<^item> \<open>createPublicKey_spki v\<close>: \<^verbatim>\<open>crypto.createPublicKey(v).export({type:'spki', format:'der'})\<close>;
  \<^item> \<open>sha256_hex b\<close>: \<^verbatim>\<open>crypto.createHash('sha256').update(b).digest('hex')\<close>;
  \<^item> \<open>generateKeyPairSync\<close>: the outcome of \<^verbatim>\<open>crypto.generateKeyPairSync('ed25519')\<close>
    and of the two PEM exports, the public key first;
  \<^item> \<open>JSON_stringify v\<close>: \<^verbatim>\<open>JSON.stringify(v, null, 2)\<close>;
  \<^item> \<open>Date_now\<close>: the value \<^verbatim>\<open>Date.now()\<close> returns during the call.
\<close>

record platform =
  createPublicKey_spki :: "jsvalue \<Rightarrow> 8 word list option"
  sha256_hex :: "8 word list \<Rightarrow> string"
  generateKeyPairSync :: "(string \<times> string) option"
  JSON_parse :: "string \<Rightarrow> jsvalue option"
  JSON_stringify :: "jsvalue \<Rightarrow> string"
  Date_now :: int
  dirname :: "string \<Rightarrow> string"

datatype error =
  KeyParseError
| KeyGenError
| ReadError
| JsonSyntaxError
| MkdirError
| WriteError

subsection \<open>The file system\<close>

text \<open>
  The state the module reads and writes: the files by path, with their permission bits,
  and what the environment refuses. A path in \<open>unreadable\<close> exists but cannot be read as
  a file; \<open>mkdir_fails\<close> holds the directories that \<^verbatim>\<open>mkdirSync(d, {recursive: true})\<close>
  cannot provide, \<open>write_fails\<close> the paths that cannot be written. Directories are not
  kept otherwise. The \<^verbatim>\<open>mode\<close> option of \<^verbatim>\<open>writeFileSync\<close> is the mode the file is
  opened with: a file the call creates gets these permission bits less the bits of the
  process's \<open>umask\<close>; a file that is already there is truncated and keeps its own.
\<close>

record regular_file =
  content :: string
  mode :: "32 word"

record filesystem =
  files :: "string \<Rightarrow> regular_file option"
  unreadable :: "string set"
  mkdir_fails :: "string set"
  write_fails :: "string set"
  umask :: "32 word"

definition existsSync :: "filesystem \<Rightarrow> string \<Rightarrow> bool" where
  "existsSync fs p = (files fs p \<noteq> None)"

definition readFileSync :: "filesystem \<Rightarrow> string \<Rightarrow> string option" where
  "readFileSync fs p =
     (case files fs p of
        None \<Rightarrow> None
      | Some f \<Rightarrow> if p \<in> unreadable fs then None else Some (content f))"

definition mkdirSync :: "filesystem \<Rightarrow> string \<Rightarrow> filesystem option" where
  "mkdirSync fs d = (if d \<in> mkdir_fails fs then None else Some fs)"

definition writeFileSync ::
  "filesystem \<Rightarrow> string \<Rightarrow> string \<Rightarrow> 32 word \<Rightarrow> filesystem option" where
  "writeFileSync fs p data m =
     (if p \<in> write_fails fs then None
      else Some (fs\<lparr>files := (files fs)
             (p \<mapsto> \<lparr>content = data,
                    mode = (case files fs p of
                              None \<Rightarrow> m AND NOT (umask fs)
                            | Some f \<Rightarrow> mode f)\<rparr>)\<rparr>))"

subsection \<open>Key derivation\<close>

record DeviceIdentity =
  deviceId :: string
  publicKeyPem :: jsvalue
  privateKeyPem :: jsvalue

text \<open>
  \<^verbatim>\<open>Buffer.from('302a300506032b6570032100', 'hex')\<close>. In the two functions after it
  the parameter \<^verbatim>\<open>publicKeyPem\<close> is written \<open>pem\<close>, the record's field having the name.
\<close>

definition ED25519_SPKI_PREFIX :: "8 word list" where
  "ED25519_SPKI_PREFIX =
     [0x30, 0x2a, 0x30, 0x05, 0x06, 0x03, 0x2b, 0x65, 0x70, 0x03, 0x21, 0x00]"

definition derivePublicKeyRaw :: "platform \<Rightarrow> jsvalue \<Rightarrow> error + 8 word list" where
  "derivePublicKeyRaw P pem =
     (case createPublicKey_spki P pem of
        None \<Rightarrow> Inl KeyParseError
      | Some spki \<Rightarrow>
          if length spki = length ED25519_SPKI_PREFIX + 32 \<and>
             take (length ED25519_SPKI_PREFIX) spki = ED25519_SPKI_PREFIX
          then Inr (drop (length ED25519_SPKI_PREFIX) spki)
          else Inr spki)"

definition fingerprintPublicKey :: "platform \<Rightarrow> jsvalue \<Rightarrow> error + string" where
  "fingerprintPublicKey P pem =
     (case derivePublicKeyRaw P pem of
        Inl e \<Rightarrow> Inl e
      | Inr raw \<Rightarrow> Inr (sha256_hex P raw))"

definition generateIdentity :: "platform \<Rightarrow> error + DeviceIdentity" where
  "generateIdentity P =
     (case generateKeyPairSync P of
        None \<Rightarrow> Inl KeyGenError
      | Some (pub, priv) \<Rightarrow>
          (case fingerprintPublicKey P (JStr pub) of
             Inl e \<Rightarrow> Inl e
           | Inr fp \<Rightarrow>
               Inr \<lparr>deviceId = fp, publicKeyPem = JStr pub, privateKeyPem = JStr priv\<rparr>))"

subsection \<open>Load or create\<close>

text \<open>
  The \<^verbatim>\<open>try\<close> block of \<^verbatim>\<open>loadOrCreateDeviceIdentity\<close>: \<open>Inr (Some i)\<close> when it returns
  the identity \<open>i\<close>, \<open>Inr None\<close> when control leaves it without a return, \<open>Inl e\<close> when
  a call in it throws (the \<^verbatim>\<open>catch\<close> clause is empty).
\<close>

definition tryLoad :: "platform \<Rightarrow> filesystem \<Rightarrow> string \<Rightarrow> error + DeviceIdentity option" where
  "tryLoad P fs filePath =
     (if existsSync fs filePath then
        (case readFileSync fs filePath of
           None \<Rightarrow> Inl ReadError
         | Some raw \<Rightarrow>
             (case JSON_parse P raw of
                None \<Rightarrow> Inl JsonSyntaxError
              | Some parsed \<Rightarrow>
                  if getProp parsed ''version'' = JNum 1 \<and> truthy (getProp parsed ''deviceId'') \<and>
                     truthy (getProp parsed ''publicKeyPem'') \<and>
                     truthy (getProp parsed ''privateKeyPem'')
                  then
                    (case fingerprintPublicKey P (getProp parsed ''publicKeyPem'') of
                       Inl e \<Rightarrow> Inl e
                     | Inr derivedId \<Rightarrow>
                         Inr (Some \<lparr>deviceId = derivedId,
                                    publicKeyPem = getProp parsed ''publicKeyPem'',
                                    privateKeyPem = getProp parsed ''privateKeyPem''\<rparr>))
                  else Inr None))
      else Inr None)"

text \<open>The object \<^verbatim>\<open>stored\<close>, with its properties in the order they are written.\<close>

definition stored :: "DeviceIdentity \<Rightarrow> int \<Rightarrow> jsvalue" where
  "stored identity now =
     JObj [(''version'', JNum 1),
           (''deviceId'', JStr (deviceId identity)),
           (''publicKeyPem'', publicKeyPem identity),
           (''privateKeyPem'', privateKeyPem identity),
           (''createdAtMs'', JNum (of_int now))]"

text \<open>
  The statements after the \<^verbatim>\<open>try\<close> block: generate, create the directory, write the
  record with mode \<^verbatim>\<open>0o600\<close>, which is \<open>6 * 64\<close>. Nothing here is caught.
\<close>

definition createAndPersist ::
  "platform \<Rightarrow> filesystem \<Rightarrow> string \<Rightarrow> error + filesystem \<times> DeviceIdentity" where
  "createAndPersist P fs filePath =
     (case generateIdentity P of
        Inl e \<Rightarrow> Inl e
      | Inr identity \<Rightarrow>
          (case mkdirSync fs (dirname P filePath) of
             None \<Rightarrow> Inl MkdirError
           | Some fs1 \<Rightarrow>
               (case writeFileSync fs1 filePath
                       (JSON_stringify P (stored identity (Date_now P)) @ [CHR 0x0A])
                       (6 * 64) of
                  None \<Rightarrow> Inl WriteError
                | Some fs2 \<Rightarrow> Inr (fs2, identity))))"

definition loadOrCreateDeviceIdentity ::
  "platform \<Rightarrow> filesystem \<Rightarrow> string \<Rightarrow> error + filesystem \<times> DeviceIdentity" where
  "loadOrCreateDeviceIdentity P fs filePath =
     (case tryLoad P fs filePath of
        Inr (Some identity) \<Rightarrow> Inr (fs, identity)
      | Inr None \<Rightarrow> createAndPersist P fs filePath
      | Inl e \<Rightarrow> createAndPersist P fs filePath)"

section \<open>Test data\<close>

text \<open>
  A stand-in platform and small file systems on which the theorems below are run. The key
  encoding, the digest and the JSON codec are tables over a handful of inputs, not
  implementations: \<open>PEM-A\<close> and \<open>PEM-B\<close> stand for the PEM texts of two Ed25519 public
  keys whose 32 key bytes are \<open>test_key\<close> and \<open>test_key_B\<close>, \<open>PEM-X\<close> for the PEM text of
  an X25519 public key; \<open>fp_A\<close> and \<open>fp_B\<close> stand for the digests of the two Ed25519 keys
  and \<open>fp_other\<close> for the digest of anything else; each document is paired with the value
  \<^verbatim>\<open>JSON.parse\<close> gives for it.
\<close>

definition test_key :: "8 word list" where
  "test_key = [7, 7, 7, 7, 7, 7, 7, 7, 7, 7, 7, 7, 7, 7, 7, 7,
               7, 7, 7, 7, 7, 7, 7, 7, 7, 7, 7, 7, 7, 7, 7, 7]"

definition test_key_B :: "8 word list" where
  "test_key_B = [9, 9, 9, 9, 9, 9, 9, 9, 9, 9, 9, 9, 9, 9, 9, 9,
                 9, 9, 9, 9, 9, 9, 9, 9, 9, 9, 9, 9, 9, 9, 9, 9]"

text \<open>
  The SPKI encoding of an X25519 public key: the same layout as for Ed25519, with the
  object identifier 1.3.101.110 in place of 1.3.101.112.
\<close>

definition x25519_spki :: "8 word list" where
  "x25519_spki =
     [0x30, 0x2a, 0x30, 0x05, 0x06, 0x03, 0x2b, 0x65, 0x6e, 0x03, 0x21, 0x00] @ test_key"

definition fp_A :: string where
  "fp_A = ''a1a1a1a1a1a1a1a1a1a1a1a1a1a1a1a1a1a1a1a1a1a1a1a1a1a1a1a1a1a1a1a1''"

definition fp_B :: string where
  "fp_B = ''b2b2b2b2b2b2b2b2b2b2b2b2b2b2b2b2b2b2b2b2b2b2b2b2b2b2b2b2b2b2b2b2''"

definition fp_other :: string where
  "fp_other = ''0f0f0f0f0f0f0f0f0f0f0f0f0f0f0f0f0f0f0f0f0f0f0f0f0f0f0f0f0f0f0f0f''"

definition test_identity :: DeviceIdentity where
  "test_identity = \<lparr>deviceId = fp_A, publicKeyPem = JStr ''PEM-A'', privateKeyPem = JStr ''KEY-A''\<rparr>"

definition test_identity_B :: DeviceIdentity where
  "test_identity_B = \<lparr>deviceId = fp_B, publicKeyPem = JStr ''PEM-B'', privateKeyPem = JStr ''KEY-B''\<rparr>"

definition doc_stored :: string where
  "doc_stored = ''{\"version\":1,\"deviceId\":\"'' @ fp_A @ ''\",\"publicKeyPem\":\"PEM-A\",\"privateKeyPem\":\"KEY-A\",\"createdAtMs\":1700000000000}''"

definition doc_tampered :: string where
  "doc_tampered = ''{\"version\":1,\"deviceId\":\"tampered\",\"publicKeyPem\":\"PEM-A\",\"privateKeyPem\":\"KEY-A\",\"createdAtMs\":1700000000000}''"

definition doc_spec_names :: string where
  "doc_spec_names = ''{\"version\":1,\"deviceId\":\"'' @ fp_A @ ''\",\"publicKey\":\"PEM-A\",\"privateKey\":\"KEY-A\",\"createdAt\":1700000000000}''"

definition doc_version2 :: string where
  "doc_version2 = ''{\"version\":2,\"deviceId\":\"'' @ fp_A @ ''\",\"publicKeyPem\":\"PEM-A\",\"privateKeyPem\":\"KEY-A\",\"createdAtMs\":1700000000000}''"

definition doc_no_privateKey :: string where
  "doc_no_privateKey = ''{\"version\":1,\"deviceId\":\"'' @ fp_A @ ''\",\"publicKeyPem\":\"PEM-A\",\"createdAtMs\":1700000000000}''"

definition doc_bad_key :: string where
  "doc_bad_key = ''{\"version\":1,\"deviceId\":\"'' @ fp_A @ ''\",\"publicKeyPem\":\"garbage\",\"privateKeyPem\":\"KEY-A\",\"createdAtMs\":1700000000000}''"

definition doc_x25519 :: string where
  "doc_x25519 = ''{\"version\":1,\"deviceId\":\"'' @ fp_A @ ''\",\"publicKeyPem\":\"PEM-X\",\"privateKeyPem\":\"KEY-X\",\"createdAtMs\":1700000000000}''"

definition doc_stored_B :: string where
  "doc_stored_B = ''{\"version\":1,\"deviceId\":\"'' @ fp_B @ ''\",\"publicKeyPem\":\"PEM-B\",\"privateKeyPem\":\"KEY-B\",\"createdAtMs\":1700000000000}''"

definition test_documents :: "(string \<times> jsvalue) list" where
  "test_documents =
     [(doc_stored @ [CHR 0x0A], stored test_identity 1700000000000),
      (doc_tampered,
         JObj [(''version'', JNum 1), (''deviceId'', JStr ''tampered''),
               (''publicKeyPem'', JStr ''PEM-A''), (''privateKeyPem'', JStr ''KEY-A''),
               (''createdAtMs'', JNum 1700000000000)]),
      (doc_spec_names,
         JObj [(''version'', JNum 1), (''deviceId'', JStr fp_A),
               (''publicKey'', JStr ''PEM-A''), (''privateKey'', JStr ''KEY-A''),
               (''createdAt'', JNum 1700000000000)]),
      (doc_version2,
         JObj [(''version'', JNum 2), (''deviceId'', JStr fp_A),
               (''publicKeyPem'', JStr ''PEM-A''), (''privateKeyPem'', JStr ''KEY-A''),
               (''createdAtMs'', JNum 1700000000000)]),
      (doc_no_privateKey,
         JObj [(''version'', JNum 1), (''deviceId'', JStr fp_A),
               (''publicKeyPem'', JStr ''PEM-A''), (''createdAtMs'', JNum 1700000000000)]),
      (doc_bad_key,
         JObj [(''version'', JNum 1), (''deviceId'', JStr fp_A),
               (''publicKeyPem'', JStr ''garbage''), (''privateKeyPem'', JStr ''KEY-A''),
               (''createdAtMs'', JNum 1700000000000)]),
      (doc_x25519,
         JObj [(''version'', JNum 1), (''deviceId'', JStr fp_A),
               (''publicKeyPem'', JStr ''PEM-X''), (''privateKeyPem'', JStr ''KEY-X''),
               (''createdAtMs'', JNum 1700000000000)])]"

definition test_platform :: platform where
  "test_platform =
     \<lparr>createPublicKey_spki =
        (\<lambda>v. if v = JStr ''PEM-A'' then Some (ED25519_SPKI_PREFIX @ test_key)
             else if v = JStr ''PEM-B'' then Some (ED25519_SPKI_PREFIX @ test_key_B)
             else if v = JStr ''PEM-X'' then Some x25519_spki
             else None),
      sha256_hex =
        (\<lambda>b. if b = test_key then fp_A else if b = test_key_B then fp_B else fp_other),
      generateKeyPairSync = Some (''PEM-A'', ''KEY-A''),
      JSON_parse = map_of test_documents,
      JSON_stringify =
        (\<lambda>v. if v = stored test_identity 1700000000000 then doc_stored
             else if v = stored test_identity_B 1700000000000 then doc_stored_B
             else ''null''),
      Date_now = 1700000000000,
      dirname = (\<lambda>p. ''/home/u/.mission-control/identity'')\<rparr>"

definition test_path :: string where
  "test_path = ''/home/u/.mission-control/identity/device.json''"

text \<open>
  File systems under the umask \<^verbatim>\<open>0o022\<close>: one holding the one file \<open>test_path\<close> with
  the given content and mode \<^verbatim>\<open>0o644\<close>; one holding no file, and the same after the
  record of \<open>test_identity\<close> was written to it; one whose file is write-only (mode
  \<^verbatim>\<open>0o200\<close>) and cannot be read.
\<close>

definition test_fs :: "string \<Rightarrow> filesystem" where
  "test_fs doc =
     \<lparr>files = [test_path \<mapsto> \<lparr>content = doc, mode = 6 * 64 + 4 * 8 + 4\<rparr>],
      unreadable = {}, mkdir_fails = {}, write_fails = {}, umask = 2 * 8 + 2\<rparr>"

definition empty_fs :: filesystem where
  "empty_fs =
     \<lparr>files = Map.empty, unreadable = {}, mkdir_fails = {}, write_fails = {},
      umask = 2 * 8 + 2\<rparr>"

definition written_fs :: filesystem where
  "written_fs =
     \<lparr>files = [test_path \<mapsto> \<lparr>content = doc_stored @ [CHR 0x0A], mode = 6 * 64\<rparr>],
      unreadable = {}, mkdir_fails = {}, write_fails = {}, umask = 2 * 8 + 2\<rparr>"

definition write_only_fs :: "string \<Rightarrow> filesystem" where
  "write_only_fs doc =
     \<lparr>files = [test_path \<mapsto> \<lparr>content = doc, mode = 2 * 64\<rparr>],
      unreadable = {test_path}, mkdir_fails = {}, write_fails = {}, umask = 2 * 8 + 2\<rparr>"

section \<open>Properties of the payload builder\<close>

lemma version_cases: "version p = ''v2'' \<longleftrightarrow> truthy_string (nonce p)"
  by (simp add: version_def)

lemma payload_unfold:
  "buildDeviceAuthPayload p =
     version p @ ''|'' @ param_deviceId p @ ''|'' @ clientId p @ ''|'' @ clientMode p @ ''|''
       @ role p @ ''|'' @ join '','' (scopes p) @ ''|'' @ String_number (signedAtMs p) @ ''|''
       @ or_empty (token p) @ (if truthy_string (nonce p) then ''|'' @ or_empty (nonce p) else [])"
  by (simp add: buildDeviceAuthPayload_def payloadFields_def version_cases Let_def)

text \<open>
  C7: the builder maps the example parameters (no token, no nonce) to
  \<^verbatim>\<open>v1|abc|c1|cli|admin|read,write|1700000000000|\<close>; whatever the other parameters are,
  a \<^verbatim>\<open>null\<close> token fills its own (eighth) field with the empty string, so the payload is
  the one built for the token \<^verbatim>\<open>""\<close> and the field is never dropped; without a nonce
  it is the last field, so the payload ends with the delimiter.
\<close>

theorem payload_example_null_token:
  "buildDeviceAuthPayload
     \<lparr>param_deviceId = ''abc'', clientId = ''c1'', clientMode = ''cli'', role = ''admin'',
      scopes = [''read'', ''write''], signedAtMs = 1700000000000, token = None, nonce = None\<rparr>
     = ''v1|abc|c1|cli|admin|read,write|1700000000000|''
   \<and> payloadFields (p\<lparr>token := None\<rparr>) ! 7 = []
   \<and> length (payloadFields (p\<lparr>token := None\<rparr>)) = length (payloadFields (p\<lparr>token := Some t\<rparr>))
   \<and> buildDeviceAuthPayload (p\<lparr>token := None\<rparr>) = buildDeviceAuthPayload (p\<lparr>token := Some []\<rparr>)
   \<and> last (buildDeviceAuthPayload (p\<lparr>token := None, nonce := None\<rparr>)) = CHR ''|''"
proof -
  have d: "decimal 1700000000000 = ''1700000000000''"
    by (simp add: decimal.simps)
  have ex: "buildDeviceAuthPayload
     \<lparr>param_deviceId = ''abc'', clientId = ''c1'', clientMode = ''cli'', role = ''admin'',
      scopes = [''read'', ''write''], signedAtMs = 1700000000000, token = None, nonce = None\<rparr>
     = ''v1|abc|c1|cli|admin|read,write|1700000000000|''"
    by (simp add: payload_unfold version_def String_number_def d)
  have f7: "payloadFields (p\<lparr>token := None\<rparr>) ! 7 = []"
    by (simp add: payloadFields_def version_def Let_def)
  have len: "length (payloadFields (p\<lparr>token := None\<rparr>)) = length (payloadFields (p\<lparr>token := Some t\<rparr>))"
    by (simp add: payloadFields_def version_def Let_def)
  have same: "buildDeviceAuthPayload (p\<lparr>token := None\<rparr>) = buildDeviceAuthPayload (p\<lparr>token := Some []\<rparr>)"
    by (simp add: payload_unfold version_def)
  have trail: "last (buildDeviceAuthPayload (p\<lparr>token := None, nonce := None\<rparr>)) = CHR ''|''"
    by (simp add: payload_unfold version_def)
  show ?thesis
    by (intro conjI ex f7 len same trail)
qed

subsection \<open>Versioning\<close>

lemma fields_v1:
  "\<not> truthy_string (nonce p) \<Longrightarrow>
   payloadFields p = [''v1'', param_deviceId p, clientId p, clientMode p, role p,
     join '','' (scopes p), String_number (signedAtMs p), or_empty (token p)]"
  by (simp add: payloadFields_def version_def Let_def)

lemma fields_v2:
  "truthy_string (nonce p) \<Longrightarrow>
   payloadFields p = [''v2'', param_deviceId p, clientId p, clientMode p, role p,
     join '','' (scopes p), String_number (signedAtMs p), or_empty (token p), or_empty (nonce p)]"
  by (simp add: payloadFields_def version_def Let_def)

text \<open>
  C3, as the code has it: the version is chosen by the truthiness of the nonce. With a
  non-empty nonce the payload begins with \<^verbatim>\<open>v2|\<close> and its field list is the one built
  without a nonce, retagged \<^verbatim>\<open>v2\<close>, plus the nonce as ninth and last field; with no
  nonce, or with the empty string as nonce, the payload begins with \<^verbatim>\<open>v1|\<close> and has
  the eight fields only.
\<close>

theorem payload_versioning:
  "(\<forall>n. nonce p = Some n \<and> n \<noteq> [] \<longrightarrow>
      take 3 (buildDeviceAuthPayload p) = ''v2|''
      \<and> payloadFields p = (payloadFields (p\<lparr>nonce := None\<rparr>))[0 := ''v2''] @ [n]
      \<and> length (payloadFields p) = Suc (length (payloadFields (p\<lparr>nonce := None\<rparr>))))
   \<and> (nonce p = None \<or> nonce p = Some [] \<longrightarrow>
      take 3 (buildDeviceAuthPayload p) = ''v1|''
      \<and> length (payloadFields p) = 8
      \<and> payloadFields p = payloadFields (p\<lparr>nonce := None\<rparr>))"
proof (intro conjI allI impI)
  fix n assume h: "nonce p = Some n \<and> n \<noteq> []"
  then have t: "truthy_string (nonce p)" by simp
  show "take 3 (buildDeviceAuthPayload p) = ''v2|''"
    using t by (simp add: payload_unfold version_def)
  show "payloadFields p = (payloadFields (p\<lparr>nonce := None\<rparr>))[0 := ''v2''] @ [n]"
    using h by (simp add: fields_v2 [OF t] fields_v1)
  show "length (payloadFields p) = Suc (length (payloadFields (p\<lparr>nonce := None\<rparr>)))"
    by (simp add: fields_v2 [OF t] fields_v1)
next
  assume h: "nonce p = None \<or> nonce p = Some []"
  then have f: "\<not> truthy_string (nonce p)" by auto
  show "take 3 (buildDeviceAuthPayload p) = ''v1|''"
    using f by (simp add: payload_unfold version_def)
  show "length (payloadFields p) = 8"
    by (simp add: fields_v1 [OF f])
  show "payloadFields p = payloadFields (p\<lparr>nonce := None\<rparr>)"
    by (simp add: fields_v1 [OF f] fields_v1)
qed

theorem payload_versioning_witness:
  "(nonce \<lparr>param_deviceId = ''abc'', clientId = ''c1'', clientMode = ''cli'', role = ''admin'',
       scopes = [''read''], signedAtMs = 5, token = None, nonce = Some ''n1''\<rparr> = Some ''n1''
     \<and> ''n1'' \<noteq> [])
   \<and> take 3 (buildDeviceAuthPayload
      \<lparr>param_deviceId = ''abc'', clientId = ''c1'', clientMode = ''cli'', role = ''admin'',
       scopes = [''read''], signedAtMs = 5, token = None, nonce = Some ''n1''\<rparr>) = ''v2|''
   \<and> (nonce \<lparr>param_deviceId = ''abc'', clientId = ''c1'', clientMode = ''cli'', role = ''admin'',
       scopes = [''read''], signedAtMs = 5, token = None, nonce = None\<rparr> = None)
   \<and> take 3 (buildDeviceAuthPayload
      \<lparr>param_deviceId = ''abc'', clientId = ''c1'', clientMode = ''cli'', role = ''admin'',
       scopes = [''read''], signedAtMs = 5, token = None, nonce = None\<rparr>) = ''v1|''"
proof -
  let ?p = "\<lparr>param_deviceId = ''abc'', clientId = ''c1'', clientMode = ''cli'', role = ''admin'',
       scopes = [''read''], signedAtMs = 5, token = None, nonce = Some ''n1''\<rparr>"
  let ?q = "\<lparr>param_deviceId = ''abc'', clientId = ''c1'', clientMode = ''cli'', role = ''admin'',
       scopes = [''read''], signedAtMs = 5, token = None, nonce = None\<rparr>"
  have a: "nonce ?p = Some ''n1'' \<and> ''n1'' \<noteq> []" by simp
  have b: "nonce ?q = None" by simp
  have b': "nonce ?q = None \<or> nonce ?q = Some []" by simp
  note v2 = payload_versioning [of ?p, THEN conjunct1, rule_format, OF a, THEN conjunct1]
  note v1 = payload_versioning [of ?q, THEN conjunct2, rule_format, OF b', THEN conjunct1]
  show ?thesis
    by (intro conjI a [THEN conjunct1] a [THEN conjunct2] v2 b v1)
qed

text \<open>
  C3 as stated fails for a nonce that is supplied but empty: the payload is tagged
  \<^verbatim>\<open>v1\<close> and carries no ninth field.
\<close>

theorem empty_nonce_counterexample:
  "nonce \<lparr>param_deviceId = ''abc'', clientId = ''c1'', clientMode = ''cli'', role = ''admin'',
       scopes = [''read'', ''write''], signedAtMs = 1700000000000, token = None, nonce = Some []\<rparr>
     \<noteq> None
   \<and> take 3 (buildDeviceAuthPayload
      \<lparr>param_deviceId = ''abc'', clientId = ''c1'', clientMode = ''cli'', role = ''admin'',
       scopes = [''read'', ''write''], signedAtMs = 1700000000000, token = None, nonce = Some []\<rparr>)
     \<noteq> ''v2|''
   \<and> length (payloadFields
      \<lparr>param_deviceId = ''abc'', clientId = ''c1'', clientMode = ''cli'', role = ''admin'',
       scopes = [''read'', ''write''], signedAtMs = 1700000000000, token = None, nonce = Some []\<rparr>)
     = length (payloadFields
      \<lparr>param_deviceId = ''abc'', clientId = ''c1'', clientMode = ''cli'', role = ''admin'',
       scopes = [''read'', ''write''], signedAtMs = 1700000000000, token = None, nonce = None\<rparr>)"
  by (simp add: payload_unfold version_def fields_v1)

subsection \<open>Scope order\<close>

lemma takeWhile_field:
  assumes "c \<notin> set x" and "r = [] \<or> hd r = c"
  shows "takeWhile (\<lambda>a. a \<noteq> c) (x @ r) = x"
proof (cases r)
  case Nil
  with assms(1) show ?thesis by (induction x) auto
next
  case (Cons a r')
  with assms(2) have "r = c # r'" by simp
  with assms(1) show ?thesis by (induction x) auto
qed

lemma join_Cons: "join sep (x # xs) = x @ (if xs = [] then [] else sep @ join sep xs)"
  by (cases xs) simp_all

lemma join_comma_inj:
  assumes "length xs = length ys"
    and "\<forall>x\<in>set xs. CHR '','' \<notin> set x" and "\<forall>y\<in>set ys. CHR '','' \<notin> set y"
    and "join '','' xs = join '','' ys"
  shows "xs = ys"
  using assms
proof (induction xs ys rule: list_induct2)
  case Nil
  then show ?case by simp
next
  case (Cons x xs y ys)
  let ?r = "if xs = [] then [] else '','' @ join '','' xs"
  let ?s = "if ys = [] then [] else '','' @ join '','' ys"
  have eq: "x @ ?r = y @ ?s"
    using Cons.prems(3) by (simp only: join_Cons)
  have x: "takeWhile (\<lambda>a. a \<noteq> CHR '','') (x @ ?r) = x"
    by (rule takeWhile_field) (use Cons.prems(1) in auto)
  have y: "takeWhile (\<lambda>a. a \<noteq> CHR '','') (y @ ?s) = y"
    by (rule takeWhile_field) (use Cons.prems(2) in auto)
  from eq x y have xy: "x = y" by simp
  with eq have rs: "?r = ?s" by simp
  from Cons.hyps have e: "xs = [] \<longleftrightarrow> ys = []" by auto
  from rs e have "join '','' xs = join '','' ys"
    by (cases "xs = []") auto
  with Cons xy show ?case by simp
qed

lemma payload_scopes_cancel:
  "buildDeviceAuthPayload (p\<lparr>scopes := ss\<rparr>) = buildDeviceAuthPayload p
     \<longleftrightarrow> join '','' ss = join '','' (scopes p)"
  by (simp add: payload_unfold version_def)

text \<open>
  C8, as the code has it: the builder is a function of its parameters alone, so equal
  parameters give equal payloads; and when no scope contains the separator \<^verbatim>\<open>,\<close>,
  exchanging two different scopes of the list changes the payload.
\<close>

theorem scope_order_signed:
  "(q = p \<longrightarrow> buildDeviceAuthPayload q = buildDeviceAuthPayload p)
   \<and> (i < length (scopes p) \<and> j < length (scopes p) \<and> scopes p ! i \<noteq> scopes p ! j
        \<and> (\<forall>s\<in>set (scopes p). CHR '','' \<notin> set s) \<longrightarrow>
      buildDeviceAuthPayload (p\<lparr>scopes := (scopes p)[i := scopes p ! j, j := scopes p ! i]\<rparr>)
        \<noteq> buildDeviceAuthPayload p)"
proof (intro conjI impI notI)
  assume "q = p"
  then show "buildDeviceAuthPayload q = buildDeviceAuthPayload p" by simp
next
  let ?ss = "(scopes p)[i := scopes p ! j, j := scopes p ! i]"
  assume h: "i < length (scopes p) \<and> j < length (scopes p) \<and> scopes p ! i \<noteq> scopes p ! j
        \<and> (\<forall>s\<in>set (scopes p). CHR '','' \<notin> set s)"
  assume "buildDeviceAuthPayload (p\<lparr>scopes := ?ss\<rparr>) = buildDeviceAuthPayload p"
  then have j: "join '','' ?ss = join '','' (scopes p)"
    by (simp only: payload_scopes_cancel)
  from h have cfp: "\<forall>s\<in>set (scopes p). CHR '','' \<notin> set s" by simp
  have "set ?ss \<subseteq> set (scopes p)"
    using h by (metis set_swap subset_refl)
  with cfp have cf: "\<forall>s\<in>set ?ss. CHR '','' \<notin> set s" by blast
  have "?ss = scopes p"
    by (rule join_comma_inj [OF _ cf cfp j]) simp
  then have "?ss ! i = scopes p ! i" by simp
  moreover from h have "i \<noteq> j" by auto
  ultimately show False
    using h by (simp add: nth_list_update)
qed

theorem scope_order_signed_witness:
  "((0::nat) < length (scopes \<lparr>param_deviceId = ''abc'', clientId = ''c1'', clientMode = ''cli'',
        role = ''admin'', scopes = [''read'', ''write''], signedAtMs = 5, token = None, nonce = None\<rparr>)
    \<and> (1::nat) < length (scopes \<lparr>param_deviceId = ''abc'', clientId = ''c1'', clientMode = ''cli'',
        role = ''admin'', scopes = [''read'', ''write''], signedAtMs = 5, token = None, nonce = None\<rparr>)
    \<and> scopes \<lparr>param_deviceId = ''abc'', clientId = ''c1'', clientMode = ''cli'',
        role = ''admin'', scopes = [''read'', ''write''], signedAtMs = 5, token = None, nonce = None\<rparr> ! 0
      \<noteq> scopes \<lparr>param_deviceId = ''abc'', clientId = ''c1'', clientMode = ''cli'',
        role = ''admin'', scopes = [''read'', ''write''], signedAtMs = 5, token = None, nonce = None\<rparr> ! 1
    \<and> list_all (\<lambda>s. CHR '','' \<notin> set s)
         (scopes \<lparr>param_deviceId = ''abc'', clientId = ''c1'', clientMode = ''cli'',
            role = ''admin'', scopes = [''read'', ''write''], signedAtMs = 5, token = None,
            nonce = None\<rparr>))
   \<and> buildDeviceAuthPayload \<lparr>param_deviceId = ''abc'', clientId = ''c1'', clientMode = ''cli'',
        role = ''admin'', scopes = [''write'', ''read''], signedAtMs = 5, token = None, nonce = None\<rparr>
     \<noteq> buildDeviceAuthPayload \<lparr>param_deviceId = ''abc'', clientId = ''c1'', clientMode = ''cli'',
        role = ''admin'', scopes = [''read'', ''write''], signedAtMs = 5, token = None, nonce = None\<rparr>"
proof -
  let ?p = "\<lparr>param_deviceId = ''abc'', clientId = ''c1'', clientMode = ''cli'',
        role = ''admin'', scopes = [''read'', ''write''], signedAtMs = 5, token = None, nonce = None\<rparr>"
  have h: "(0::nat) < length (scopes ?p) \<and> (1::nat) < length (scopes ?p)
      \<and> scopes ?p ! 0 \<noteq> scopes ?p ! 1 \<and> (\<forall>s\<in>set (scopes ?p). CHR '','' \<notin> set s)"
    by simp
  have sw: "?p\<lparr>scopes := (scopes ?p)[0 := scopes ?p ! 1, 1 := scopes ?p ! 0]\<rparr>
      = \<lparr>param_deviceId = ''abc'', clientId = ''c1'', clientMode = ''cli'',
        role = ''admin'', scopes = [''write'', ''read''], signedAtMs = 5, token = None, nonce = None\<rparr>"
    by simp
  note t = scope_order_signed [of _ ?p 0 1, THEN conjunct2, rule_format, OF h]
  have c: "buildDeviceAuthPayload \<lparr>param_deviceId = ''abc'', clientId = ''c1'',
        clientMode = ''cli'', role = ''admin'', scopes = [''write'', ''read''], signedAtMs = 5,
        token = None, nonce = None\<rparr> \<noteq> buildDeviceAuthPayload ?p"
    by (subst sw [symmetric]) (rule t)
  have l: "list_all (\<lambda>s. CHR '','' \<notin> set s) (scopes ?p)"
    by simp
  from h have h1: "(0::nat) < length (scopes ?p)" and h2: "(1::nat) < length (scopes ?p)"
    and h3: "scopes ?p ! 0 \<noteq> scopes ?p ! 1"
    by blast+
  show ?thesis
    by (intro conjI h1 h2 h3 l c)
qed

text \<open>
  C8 as stated fails when a scope contains the separator: \<^verbatim>\<open>["a", "a,a"]\<close> and
  \<^verbatim>\<open>["a,a", "a"]\<close> both join to \<^verbatim>\<open>a,a,a\<close>.
\<close>

theorem scope_swap_counterexample:
  "[''a'', ''a,a''] ! 0 \<noteq> [''a'', ''a,a''] ! 1
   \<and> buildDeviceAuthPayload \<lparr>param_deviceId = ''abc'', clientId = ''c1'', clientMode = ''cli'',
        role = ''admin'', scopes = [''a'', ''a,a''][0 := [''a'', ''a,a''] ! 1, 1 := [''a'', ''a,a''] ! 0],
        signedAtMs = 5, token = None, nonce = None\<rparr>
     = buildDeviceAuthPayload \<lparr>param_deviceId = ''abc'', clientId = ''c1'', clientMode = ''cli'',
        role = ''admin'', scopes = [''a'', ''a,a''], signedAtMs = 5, token = None, nonce = None\<rparr>"
  by (simp add: payload_unfold version_def)

subsection \<open>Injectivity\<close>

text \<open>
  C10: different parameters can give one payload. The scope lists \<^verbatim>\<open>["a,b"]\<close> and
  \<^verbatim>\<open>["a", "b"]\<close> join to the same field; and a \<^verbatim>\<open>|\<close> inside a value moves the
  field boundary: device \<^verbatim>\<open>a|b\<close> with client \<^verbatim>\<open>c\<close> reads as device \<^verbatim>\<open>a\<close> with
  client \<^verbatim>\<open>b|c\<close>.
\<close>

theorem payload_not_injective:
  "\<lparr>param_deviceId = ''abc'', clientId = ''c1'', clientMode = ''cli'', role = ''admin'',
      scopes = [''a,b''], signedAtMs = 5, token = None, nonce = None\<rparr>
     \<noteq> \<lparr>param_deviceId = ''abc'', clientId = ''c1'', clientMode = ''cli'', role = ''admin'',
      scopes = [''a'', ''b''], signedAtMs = 5, token = None, nonce = None\<rparr>
   \<and> buildDeviceAuthPayload \<lparr>param_deviceId = ''abc'', clientId = ''c1'', clientMode = ''cli'',
      role = ''admin'', scopes = [''a,b''], signedAtMs = 5, token = None, nonce = None\<rparr>
     = buildDeviceAuthPayload \<lparr>param_deviceId = ''abc'', clientId = ''c1'', clientMode = ''cli'',
      role = ''admin'', scopes = [''a'', ''b''], signedAtMs = 5, token = None, nonce = None\<rparr>
   \<and> \<lparr>param_deviceId = ''a|b'', clientId = ''c'', clientMode = ''cli'', role = ''admin'',
      scopes = [''read''], signedAtMs = 5, token = None, nonce = None\<rparr>
     \<noteq> \<lparr>param_deviceId = ''a'', clientId = ''b|c'', clientMode = ''cli'', role = ''admin'',
      scopes = [''read''], signedAtMs = 5, token = None, nonce = None\<rparr>
   \<and> buildDeviceAuthPayload \<lparr>param_deviceId = ''a|b'', clientId = ''c'', clientMode = ''cli'',
      role = ''admin'', scopes = [''read''], signedAtMs = 5, token = None, nonce = None\<rparr>
     = buildDeviceAuthPayload \<lparr>param_deviceId = ''a'', clientId = ''b|c'', clientMode = ''cli'',
      role = ''admin'', scopes = [''read''], signedAtMs = 5, token = None, nonce = None\<rparr>"
  by (simp add: payload_unfold version_def)

section \<open>Properties of the device identity\<close>

subsection \<open>The functions, case by case\<close>

lemma prefix_length: "length ED25519_SPKI_PREFIX = 12"
  by (simp add: ED25519_SPKI_PREFIX_def)

lemma derive_None: "createPublicKey_spki P pem = None \<Longrightarrow> derivePublicKeyRaw P pem = Inl KeyParseError"
  by (simp add: derivePublicKeyRaw_def)

lemma derive_wrapped:
  "createPublicKey_spki P pem = Some spki \<Longrightarrow> length spki = 44 \<Longrightarrow> take 12 spki = ED25519_SPKI_PREFIX
   \<Longrightarrow> derivePublicKeyRaw P pem = Inr (drop 12 spki)"
  by (simp add: derivePublicKeyRaw_def prefix_length)

lemma derive_other:
  "createPublicKey_spki P pem = Some spki \<Longrightarrow> \<not> (length spki = 44 \<and> take 12 spki = ED25519_SPKI_PREFIX)
   \<Longrightarrow> derivePublicKeyRaw P pem = Inr spki"
  by (auto simp add: derivePublicKeyRaw_def prefix_length)

lemma fingerprint_Inr_iff:
  "(\<exists>fp. fingerprintPublicKey P v = Inr fp) \<longleftrightarrow> createPublicKey_spki P v \<noteq> None"
  by (auto simp: fingerprintPublicKey_def derivePublicKeyRaw_def split: option.splits sum.splits)

lemma fingerprint_Inr:
  "fingerprintPublicKey P v = Inr fp \<Longrightarrow>
   \<exists>raw. derivePublicKeyRaw P v = Inr raw \<and> fp = sha256_hex P raw"
  by (auto simp: fingerprintPublicKey_def split: sum.splits)

lemma tryLoad_Some_iff:
  "tryLoad P fs path = Inr (Some ident) \<longleftrightarrow>
     (\<exists>raw parsed fp. readFileSync fs path = Some raw \<and> JSON_parse P raw = Some parsed
        \<and> getProp parsed ''version'' = JNum 1 \<and> truthy (getProp parsed ''deviceId'')
        \<and> truthy (getProp parsed ''publicKeyPem'') \<and> truthy (getProp parsed ''privateKeyPem'')
        \<and> fingerprintPublicKey P (getProp parsed ''publicKeyPem'') = Inr fp
        \<and> ident = \<lparr>deviceId = fp, publicKeyPem = getProp parsed ''publicKeyPem'',
                    privateKeyPem = getProp parsed ''privateKeyPem''\<rparr>)"
  by (auto simp: tryLoad_def existsSync_def readFileSync_def split: option.splits sum.splits if_splits)

lemma tryLoad_valid:
  "tryLoad P fs path = Inr (Some ident) \<Longrightarrow>
   fingerprintPublicKey P (publicKeyPem ident) = Inr (deviceId ident)"
  by (auto simp: tryLoad_Some_iff)

lemma generateIdentity_Inr:
  "generateIdentity P = Inr ident \<Longrightarrow>
   \<exists>pub priv. generateKeyPairSync P = Some (pub, priv) \<and> publicKeyPem ident = JStr pub
     \<and> privateKeyPem ident = JStr priv \<and> fingerprintPublicKey P (JStr pub) = Inr (deviceId ident)"
  by (auto simp: generateIdentity_def split: option.splits sum.splits prod.splits)

lemma createAndPersist_Inr:
  "createAndPersist P fs path = Inr (fs', ident) \<longleftrightarrow>
     generateIdentity P = Inr ident \<and> dirname P path \<notin> mkdir_fails fs \<and> path \<notin> write_fails fs
     \<and> fs' = fs\<lparr>files := (files fs)(path \<mapsto>
          \<lparr>content = JSON_stringify P (stored ident (Date_now P)) @ [CHR 0x0A],
           mode = (case files fs path of None \<Rightarrow> 6 * 64 AND NOT (umask fs) | Some f \<Rightarrow> mode f)\<rparr>)\<rparr>"
  by (auto simp: createAndPersist_def mkdirSync_def writeFileSync_def split: option.splits sum.splits if_splits)

lemma loadOrCreate_loaded:
  "tryLoad P fs path = Inr (Some ident) \<Longrightarrow> loadOrCreateDeviceIdentity P fs path = Inr (fs, ident)"
  by (simp add: loadOrCreateDeviceIdentity_def)

lemma loadOrCreate_created:
  "\<forall>i. tryLoad P fs path \<noteq> Inr (Some i) \<Longrightarrow>
   loadOrCreateDeviceIdentity P fs path = createAndPersist P fs path"
  by (auto simp add: loadOrCreateDeviceIdentity_def split: sum.splits option.splits)

lemma loadOrCreate_Inr:
  "loadOrCreateDeviceIdentity P fs path = Inr (fs', ident) \<Longrightarrow>
   (tryLoad P fs path = Inr (Some ident) \<and> fs' = fs)
   \<or> ((\<forall>i. tryLoad P fs path \<noteq> Inr (Some i)) \<and> createAndPersist P fs path = Inr (fs', ident))"
  by (auto simp add: loadOrCreateDeviceIdentity_def split: sum.splits option.splits)

lemma createAndPersist_errors:
  "createAndPersist P fs path \<noteq> Inl ReadError \<and> createAndPersist P fs path \<noteq> Inl JsonSyntaxError"
  by (auto simp: createAndPersist_def generateIdentity_def fingerprintPublicKey_def derivePublicKeyRaw_def
      split: option.splits sum.splits prod.splits if_splits)

lemma getProp_update_other:
  "k \<noteq> k' \<Longrightarrow> getProp (JObj (AList.update k' v kvs)) k = getProp (JObj kvs) k"
  by (simp add: update_conv')

lemma getProp_update_same: "getProp (JObj (AList.update k v kvs)) k = v"
  by (simp add: update_conv')

lemma tryLoad_platform_cong:
  assumes "createPublicKey_spki P' = createPublicKey_spki P" and "sha256_hex P' = sha256_hex P"
    and "JSON_parse P' = JSON_parse P"
  shows "tryLoad P' fs path = tryLoad P fs path"
proof -
  have "derivePublicKeyRaw P' v = derivePublicKeyRaw P v" for v
    using assms(1) by (simp add: derivePublicKeyRaw_def)
  with assms(2) have "fingerprintPublicKey P' v = fingerprintPublicKey P v" for v
    by (simp add: fingerprintPublicKey_def split: sum.splits)
  with assms(3) show ?thesis
    by (simp add: tryLoad_def split: option.splits)
qed

lemma fingerprint_spki:
  "fingerprintPublicKey P v = Inr fp \<Longrightarrow>
   \<exists>spki. createPublicKey_spki P v = Some spki
     \<and> (length spki = 44 \<and> take 12 spki = ED25519_SPKI_PREFIX \<longrightarrow>
          length (drop 12 spki) = 32 \<and> fp = sha256_hex P (drop 12 spki))
     \<and> (\<not> (length spki = 44 \<and> take 12 spki = ED25519_SPKI_PREFIX) \<longrightarrow>
          fp = sha256_hex P spki)"
  by (auto simp: fingerprintPublicKey_def derivePublicKeyRaw_def prefix_length
      split: option.splits if_splits)

subsection \<open>The test data, evaluated\<close>

lemmas doc_defs =
  doc_stored_def doc_tampered_def doc_spec_names_def doc_version2_def doc_no_privateKey_def
  doc_bad_key_def doc_x25519_def doc_stored_B_def fp_A_def fp_B_def

lemma fp_nonempty: "fp_A \<noteq> []" "fp_B \<noteq> []" "fp_A \<noteq> fp_B" "fp_A \<noteq> fp_other"
  "fp_A \<noteq> ''tampered''"
  by (simp_all add: fp_A_def fp_B_def fp_other_def)

lemma test_key_length: "length test_key = 32" "length test_key_B = 32"
  by (simp_all add: test_key_def test_key_B_def)

lemma test_keys_differ: "test_key_B \<noteq> test_key" "x25519_spki \<noteq> test_key"
  "x25519_spki \<noteq> test_key_B"
  by (simp_all add: test_key_def test_key_B_def x25519_spki_def)

lemma test_spki: "createPublicKey_spki test_platform (JStr ''PEM-A'') = Some (ED25519_SPKI_PREFIX @ test_key)"
  by (simp add: test_platform_def)

lemma test_spki_B:
  "createPublicKey_spki test_platform (JStr ''PEM-B'') = Some (ED25519_SPKI_PREFIX @ test_key_B)"
  by (simp add: test_platform_def)

lemma test_spki_X: "createPublicKey_spki test_platform (JStr ''PEM-X'') = Some x25519_spki"
  by (simp add: test_platform_def)

lemma test_spki_garbage: "createPublicKey_spki test_platform (JStr ''garbage'') = None"
  by (simp add: test_platform_def)

lemma test_digest: "sha256_hex test_platform test_key = fp_A"
  "sha256_hex test_platform test_key_B = fp_B" "sha256_hex test_platform x25519_spki = fp_other"
  by (simp_all add: test_platform_def test_keys_differ)

lemma test_derive: "derivePublicKeyRaw test_platform (JStr ''PEM-A'') = Inr test_key"
  by (simp add: derivePublicKeyRaw_def test_spki prefix_length test_key_length)

lemma test_derive_B: "derivePublicKeyRaw test_platform (JStr ''PEM-B'') = Inr test_key_B"
  by (simp add: derivePublicKeyRaw_def test_spki_B prefix_length test_key_length)

lemma test_derive_X: "derivePublicKeyRaw test_platform (JStr ''PEM-X'') = Inr x25519_spki"
  by (rule derive_other [OF test_spki_X]) (simp add: x25519_spki_def ED25519_SPKI_PREFIX_def)

lemma test_fingerprint: "fingerprintPublicKey test_platform (JStr ''PEM-A'') = Inr fp_A"
  by (simp add: fingerprintPublicKey_def test_derive test_digest)

lemma test_fingerprint_B: "fingerprintPublicKey test_platform (JStr ''PEM-B'') = Inr fp_B"
  by (simp add: fingerprintPublicKey_def test_derive_B test_digest)

lemma test_fingerprint_X: "fingerprintPublicKey test_platform (JStr ''PEM-X'') = Inr fp_other"
  by (simp add: fingerprintPublicKey_def test_derive_X test_digest)

lemma test_fingerprint_garbage:
  "fingerprintPublicKey test_platform (JStr ''garbage'') = Inl KeyParseError"
  by (simp add: fingerprintPublicKey_def derivePublicKeyRaw_def test_spki_garbage)

lemma test_keygen: "generateKeyPairSync test_platform = Some (''PEM-A'', ''KEY-A'')"
  by (simp add: test_platform_def)

lemma test_now: "Date_now test_platform = 1700000000000"
  by (simp add: test_platform_def)

lemma test_dirname: "dirname test_platform p = ''/home/u/.mission-control/identity''"
  by (simp add: test_platform_def)

lemma test_generate: "generateIdentity test_platform = Inr test_identity"
  by (simp add: generateIdentity_def test_keygen test_fingerprint test_identity_def)

lemma test_stringify: "JSON_stringify test_platform (stored test_identity 1700000000000) = doc_stored"
  by (simp add: test_platform_def)

lemma test_stringify_B:
  "JSON_stringify test_platform (stored test_identity_B 1700000000000) = doc_stored_B"
  by (simp add: test_platform_def stored_def test_identity_def test_identity_B_def)

lemma test_parse_stored:
  "JSON_parse test_platform (doc_stored @ [CHR 0x0A]) = Some (stored test_identity 1700000000000)"
  by (simp add: test_platform_def test_documents_def)

lemma test_parse_tampered: "JSON_parse test_platform doc_tampered =
   Some (JObj [(''version'', JNum 1), (''deviceId'', JStr ''tampered''),
               (''publicKeyPem'', JStr ''PEM-A''), (''privateKeyPem'', JStr ''KEY-A''),
               (''createdAtMs'', JNum 1700000000000)])"
  by (simp add: test_platform_def test_documents_def doc_defs)

lemma test_parse_spec_names: "JSON_parse test_platform doc_spec_names =
   Some (JObj [(''version'', JNum 1), (''deviceId'', JStr fp_A),
               (''publicKey'', JStr ''PEM-A''), (''privateKey'', JStr ''KEY-A''),
               (''createdAt'', JNum 1700000000000)])"
  by (simp add: test_platform_def test_documents_def doc_defs)

lemma test_parse_version2: "JSON_parse test_platform doc_version2 =
   Some (JObj [(''version'', JNum 2), (''deviceId'', JStr fp_A),
               (''publicKeyPem'', JStr ''PEM-A''), (''privateKeyPem'', JStr ''KEY-A''),
               (''createdAtMs'', JNum 1700000000000)])"
  by (simp add: test_platform_def test_documents_def doc_defs)

lemma test_parse_no_privateKey: "JSON_parse test_platform doc_no_privateKey =
   Some (JObj [(''version'', JNum 1), (''deviceId'', JStr fp_A),
               (''publicKeyPem'', JStr ''PEM-A''), (''createdAtMs'', JNum 1700000000000)])"
  by (simp add: test_platform_def test_documents_def doc_defs)

lemma test_parse_bad_key: "JSON_parse test_platform doc_bad_key =
   Some (JObj [(''version'', JNum 1), (''deviceId'', JStr fp_A),
               (''publicKeyPem'', JStr ''garbage''), (''privateKeyPem'', JStr ''KEY-A''),
               (''createdAtMs'', JNum 1700000000000)])"
  by (simp add: test_platform_def test_documents_def doc_defs)

lemma test_parse_x25519: "JSON_parse test_platform doc_x25519 =
   Some (JObj [(''version'', JNum 1), (''deviceId'', JStr fp_A),
               (''publicKeyPem'', JStr ''PEM-X''), (''privateKeyPem'', JStr ''KEY-X''),
               (''createdAtMs'', JNum 1700000000000)])"
  by (simp add: test_platform_def test_documents_def doc_defs)

lemma test_parse_invalid: "JSON_parse test_platform ''{oops'' = None"
  by (simp add: test_platform_def test_documents_def doc_defs)

lemma test_read: "readFileSync (test_fs doc) test_path = Some doc"
  by (simp add: readFileSync_def test_fs_def)

lemma test_read_empty: "readFileSync empty_fs test_path = None"
  by (simp add: readFileSync_def empty_fs_def)

lemma test_read_write_only: "readFileSync (write_only_fs doc) test_path = None"
  by (simp add: readFileSync_def write_only_fs_def)

lemma test_exists: "existsSync (test_fs doc) test_path" "existsSync (write_only_fs doc) test_path"
  "\<not> existsSync empty_fs test_path"
  by (simp_all add: existsSync_def test_fs_def write_only_fs_def empty_fs_def)

lemma test_tryLoad_missing: "tryLoad test_platform empty_fs test_path = Inr None"
  by (simp add: tryLoad_def test_exists)

lemma test_tryLoad_stored:
  "tryLoad test_platform (test_fs (doc_stored @ [CHR 0x0A])) test_path = Inr (Some test_identity)"
  unfolding tryLoad_Some_iff
  by (simp add: test_read test_parse_stored stored_def test_identity_def test_fingerprint fp_nonempty)

lemma test_tryLoad_tampered:
  "tryLoad test_platform (test_fs doc_tampered) test_path = Inr (Some test_identity)"
  unfolding tryLoad_Some_iff
  by (simp add: test_read test_parse_tampered test_identity_def test_fingerprint)

lemma test_tryLoad_x25519:
  "tryLoad test_platform (test_fs doc_x25519) test_path =
     Inr (Some \<lparr>deviceId = fp_other, publicKeyPem = JStr ''PEM-X'', privateKeyPem = JStr ''KEY-X''\<rparr>)"
  unfolding tryLoad_Some_iff
  by (simp add: test_read test_parse_x25519 test_fingerprint_X fp_nonempty)

lemma test_tryLoad_spec_names:
  "tryLoad test_platform (test_fs doc_spec_names) test_path = Inr None"
  by (simp add: tryLoad_def test_exists test_read test_parse_spec_names)

lemma test_tryLoad_bad_key:
  "tryLoad test_platform (test_fs doc_bad_key) test_path = Inl KeyParseError"
  by (simp add: tryLoad_def test_exists test_read test_parse_bad_key test_fingerprint_garbage
      fp_nonempty)

lemma test_tryLoad_invalid:
  "tryLoad test_platform (test_fs ''{oops'') test_path = Inl JsonSyntaxError"
  by (simp add: tryLoad_def test_exists test_read test_parse_invalid)

lemma test_tryLoad_version2:
  "tryLoad test_platform (test_fs doc_version2) test_path = Inr None"
  by (simp add: tryLoad_def test_exists test_read test_parse_version2)

lemma test_tryLoad_write_only:
  "tryLoad P (write_only_fs doc) test_path = Inl ReadError"
  by (simp add: tryLoad_def test_exists test_read_write_only)

lemma test_mode: "(6 * 64 :: 32 word) AND NOT (2 * 8 + 2) = 6 * 64"
  by simp

lemma test_create_empty:
  "createAndPersist test_platform empty_fs test_path = Inr (written_fs, test_identity)"
  unfolding createAndPersist_Inr
  by (simp add: test_generate test_now test_stringify) (simp add: empty_fs_def written_fs_def)

lemma test_create_over:
  "createAndPersist test_platform (test_fs doc) test_path
     = Inr (test_fs (doc_stored @ [CHR 0x0A]), test_identity)"
  unfolding createAndPersist_Inr
  by (simp add: test_generate test_now test_stringify) (simp add: test_fs_def)

lemma test_loadOrCreate_empty:
  "loadOrCreateDeviceIdentity test_platform empty_fs test_path = Inr (written_fs, test_identity)"
  by (simp add: loadOrCreateDeviceIdentity_def test_tryLoad_missing test_create_empty)

subsection \<open>The identifier is the fingerprint\<close>

text \<open>
  C1, as the code has it: whenever \<^verbatim>\<open>loadOrCreateDeviceIdentity\<close> returns an identity,
  generated or loaded, the returned \<^verbatim>\<open>publicKeyPem\<close> can be decoded and \<^verbatim>\<open>deviceId\<close> is
  the digest (\<open>sha256_hex\<close>) of what \<^verbatim>\<open>derivePublicKeyRaw\<close> extracts from it: of the raw
  32 key bytes when the encoding is the Ed25519 one (44 bytes beginning with the prefix),
  of the whole encoding otherwise. The stored \<^verbatim>\<open>deviceId\<close> has no part in it: a record
  whose \<^verbatim>\<open>deviceId\<close> was replaced by any non-empty string, everything else as it was,
  loads to the same result as the original record.
\<close>

theorem deviceId_is_recomputed_fingerprint:
  "(\<forall>fs' ident. loadOrCreateDeviceIdentity P fs path = Inr (fs', ident) \<longrightarrow>
       (\<exists>spki. createPublicKey_spki P (publicKeyPem ident) = Some spki
          \<and> (length spki = 44 \<and> take 12 spki = ED25519_SPKI_PREFIX \<longrightarrow>
               length (drop 12 spki) = 32 \<and> deviceId ident = sha256_hex P (drop 12 spki))
          \<and> (\<not> (length spki = 44 \<and> take 12 spki = ED25519_SPKI_PREFIX) \<longrightarrow>
               deviceId ident = sha256_hex P spki)))
   \<and> (\<forall>f kvs s fT fsT.
         files fs path = Some f \<and> path \<notin> unreadable fs
         \<and> JSON_parse P (content f) = Some (JObj kvs) \<and> truthy (getProp (JObj kvs) ''deviceId'')
         \<and> s \<noteq> []
         \<and> files fsT path = Some fT \<and> path \<notin> unreadable fsT
         \<and> JSON_parse P (content fT) = Some (JObj (AList.update ''deviceId'' (JStr s) kvs))
       \<longrightarrow> tryLoad P fsT path = tryLoad P fs path)"
proof (intro conjI allI impI)
  fix fs' ident
  assume "loadOrCreateDeviceIdentity P fs path = Inr (fs', ident)"
  then consider "tryLoad P fs path = Inr (Some ident)" | "generateIdentity P = Inr ident"
    by (auto dest!: loadOrCreate_Inr simp: createAndPersist_Inr)
  then have "fingerprintPublicKey P (publicKeyPem ident) = Inr (deviceId ident)"
  proof cases
    case 1
    then show ?thesis by (rule tryLoad_valid)
  next
    case 2
    then show ?thesis by (auto dest: generateIdentity_Inr)
  qed
  then show "\<exists>spki. createPublicKey_spki P (publicKeyPem ident) = Some spki
          \<and> (length spki = 44 \<and> take 12 spki = ED25519_SPKI_PREFIX \<longrightarrow>
               length (drop 12 spki) = 32 \<and> deviceId ident = sha256_hex P (drop 12 spki))
          \<and> (\<not> (length spki = 44 \<and> take 12 spki = ED25519_SPKI_PREFIX) \<longrightarrow>
               deviceId ident = sha256_hex P spki)"
    by (rule fingerprint_spki)
next
  fix f fT :: regular_file and kvs s and fsT :: filesystem
  assume h: "files fs path = Some f \<and> path \<notin> unreadable fs
         \<and> JSON_parse P (content f) = Some (JObj kvs) \<and> truthy (getProp (JObj kvs) ''deviceId'')
         \<and> s \<noteq> []
         \<and> files fsT path = Some fT \<and> path \<notin> unreadable fsT
         \<and> JSON_parse P (content fT) = Some (JObj (AList.update ''deviceId'' (JStr s) kvs))"
  have o: "getProp (JObj (AList.update ''deviceId'' (JStr s) kvs)) ''version'' = getProp (JObj kvs) ''version''"
    "getProp (JObj (AList.update ''deviceId'' (JStr s) kvs)) ''publicKeyPem'' = getProp (JObj kvs) ''publicKeyPem''"
    "getProp (JObj (AList.update ''deviceId'' (JStr s) kvs)) ''privateKeyPem'' = getProp (JObj kvs) ''privateKeyPem''"
    "getProp (JObj (AList.update ''deviceId'' (JStr s) kvs)) ''deviceId'' = JStr s"
    by (simp_all only: getProp_update_same) (rule getProp_update_other, simp)+
  from h show "tryLoad P fsT path = tryLoad P fs path"
    by (simp add: tryLoad_def existsSync_def readFileSync_def o del: getProp.simps split: sum.splits)
qed

theorem deviceId_is_recomputed_fingerprint_witness:
  "loadOrCreateDeviceIdentity test_platform empty_fs test_path = Inr (written_fs, test_identity)
   \<and> loadOrCreateDeviceIdentity test_platform (test_fs doc_tampered) test_path
     = Inr (test_fs doc_tampered, test_identity)
   \<and> createPublicKey_spki test_platform (publicKeyPem test_identity)
     = Some (ED25519_SPKI_PREFIX @ test_key)
   \<and> length (ED25519_SPKI_PREFIX @ test_key) = 44
   \<and> take 12 (ED25519_SPKI_PREFIX @ test_key) = ED25519_SPKI_PREFIX
   \<and> length (drop 12 (ED25519_SPKI_PREFIX @ test_key)) = 32
   \<and> deviceId test_identity = sha256_hex test_platform (drop 12 (ED25519_SPKI_PREFIX @ test_key))
   \<and> deviceId test_identity \<noteq> ''tampered''
   \<and> tryLoad test_platform (test_fs doc_tampered) test_path
     = tryLoad test_platform (test_fs (doc_stored @ [CHR 0x0A])) test_path"
proof -
  have e: "loadOrCreateDeviceIdentity test_platform (test_fs doc_tampered) test_path
     = Inr (test_fs doc_tampered, test_identity)"
    by (simp add: loadOrCreate_loaded test_tryLoad_tampered)
  have k: "createPublicKey_spki test_platform (publicKeyPem test_identity)
     = Some (ED25519_SPKI_PREFIX @ test_key)"
    by (simp add: test_identity_def test_spki)
  have l: "length (ED25519_SPKI_PREFIX @ test_key) = 44"
    by (simp add: prefix_length test_key_length)
  have t: "take 12 (ED25519_SPKI_PREFIX @ test_key) = ED25519_SPKI_PREFIX"
    by (simp add: prefix_length)
  note a = deviceId_is_recomputed_fingerprint [of test_platform empty_fs test_path,
      THEN conjunct1, rule_format, OF test_loadOrCreate_empty]
  from a obtain spki where
    s: "createPublicKey_spki test_platform (publicKeyPem test_identity) = Some spki"
    and w: "length spki = 44 \<and> take 12 spki = ED25519_SPKI_PREFIX \<longrightarrow>
        length (drop 12 spki) = 32 \<and> deviceId test_identity = sha256_hex test_platform (drop 12 spki)"
    by blast
  from s k have "spki = ED25519_SPKI_PREFIX @ test_key" by simp
  with w l t have r: "length (drop 12 (ED25519_SPKI_PREFIX @ test_key)) = 32"
    "deviceId test_identity = sha256_hex test_platform (drop 12 (ED25519_SPKI_PREFIX @ test_key))"
    by blast+
  have h: "files (test_fs (doc_stored @ [CHR 0x0A])) test_path
        = Some \<lparr>content = doc_stored @ [CHR 0x0A], mode = 6 * 64 + 4 * 8 + 4\<rparr>
      \<and> test_path \<notin> unreadable (test_fs (doc_stored @ [CHR 0x0A]))
      \<and> JSON_parse test_platform (content \<lparr>content = doc_stored @ [CHR 0x0A], mode = 6 * 64 + 4 * 8 + 4\<rparr>)
        = Some (JObj [(''version'', JNum 1), (''deviceId'', JStr fp_A),
               (''publicKeyPem'', JStr ''PEM-A''), (''privateKeyPem'', JStr ''KEY-A''),
               (''createdAtMs'', JNum 1700000000000)])
      \<and> truthy (getProp (JObj [(''version'', JNum 1), (''deviceId'', JStr fp_A),
               (''publicKeyPem'', JStr ''PEM-A''), (''privateKeyPem'', JStr ''KEY-A''),
               (''createdAtMs'', JNum 1700000000000)]) ''deviceId'')
      \<and> ''tampered'' \<noteq> []
      \<and> files (test_fs doc_tampered) test_path
        = Some \<lparr>content = doc_tampered, mode = 6 * 64 + 4 * 8 + 4\<rparr>
      \<and> test_path \<notin> unreadable (test_fs doc_tampered)
      \<and> JSON_parse test_platform (content \<lparr>content = doc_tampered, mode = 6 * 64 + 4 * 8 + 4\<rparr>)
        = Some (JObj (AList.update ''deviceId'' (JStr ''tampered'')
             [(''version'', JNum 1), (''deviceId'', JStr fp_A),
               (''publicKeyPem'', JStr ''PEM-A''), (''privateKeyPem'', JStr ''KEY-A''),
               (''createdAtMs'', JNum 1700000000000)]))"
    by (simp add: test_fs_def test_parse_stored test_parse_tampered stored_def test_identity_def
        fp_nonempty)
  note b = deviceId_is_recomputed_fingerprint [of test_platform "test_fs (doc_stored @ [CHR 0x0A])"
      test_path, THEN conjunct2, rule_format, OF h]
  have d: "deviceId test_identity \<noteq> ''tampered''"
    by (simp add: test_identity_def fp_nonempty)
  show ?thesis
    by (intro conjI test_loadOrCreate_empty e k l t r d b)
qed

text \<open>
  C1 as stated fails for an accepted record that holds a key of another kind: the
  X25519 key \<open>PEM-X\<close> is loaded, \<^verbatim>\<open>derivePublicKeyRaw\<close> returns its whole 44-byte
  encoding, and the returned \<^verbatim>\<open>deviceId\<close> is the digest of these 44 bytes, not of the
  raw 32-byte key they end with.
\<close>

theorem non_ed25519_key_counterexample:
  "loadOrCreateDeviceIdentity test_platform (test_fs doc_x25519) test_path
     = Inr (test_fs doc_x25519,
            \<lparr>deviceId = fp_other, publicKeyPem = JStr ''PEM-X'', privateKeyPem = JStr ''KEY-X''\<rparr>)
   \<and> derivePublicKeyRaw test_platform (JStr ''PEM-X'') = Inr x25519_spki
   \<and> length x25519_spki = 44
   \<and> fp_other = sha256_hex test_platform x25519_spki
   \<and> length (drop 12 x25519_spki) = 32
   \<and> fp_other \<noteq> sha256_hex test_platform (drop 12 x25519_spki)"
proof -
  have 1: "loadOrCreateDeviceIdentity test_platform (test_fs doc_x25519) test_path
     = Inr (test_fs doc_x25519,
            \<lparr>deviceId = fp_other, publicKeyPem = JStr ''PEM-X'', privateKeyPem = JStr ''KEY-X''\<rparr>)"
    by (rule loadOrCreate_loaded [OF test_tryLoad_x25519])
  have 2: "length x25519_spki = 44"
    by (simp add: x25519_spki_def test_key_length)
  have 3: "fp_other = sha256_hex test_platform x25519_spki"
    by (simp add: test_digest)
  have d: "drop 12 x25519_spki = test_key"
    by (simp add: x25519_spki_def)
  have 4: "length (drop 12 x25519_spki) = 32"
    by (simp add: d test_key_length)
  have 5: "fp_other \<noteq> sha256_hex test_platform (drop 12 x25519_spki)"
    using fp_nonempty(4) by (simp add: d test_digest)
  show ?thesis
    by (intro conjI 1 test_derive_X 2 3 4 5)
qed

subsection \<open>Raw key extraction\<close>

text \<open>
  C2, as the code has it: the prefix has 12 bytes. An encoding of 44 bytes that begins
  with it yields its last 32 bytes; every other encoding, a bare 32-byte one among them,
  is returned unchanged whatever its length; the only failure is a key that
  \<^verbatim>\<open>createPublicKey\<close> rejects.
\<close>

theorem derivePublicKeyRaw_cases:
  "(createPublicKey_spki P pem = None \<longrightarrow> derivePublicKeyRaw P pem = Inl KeyParseError)
   \<and> (\<forall>spki. createPublicKey_spki P pem = Some spki \<longrightarrow>
        (length spki = 44 \<and> take 12 spki = ED25519_SPKI_PREFIX \<longrightarrow>
           derivePublicKeyRaw P pem = Inr (drop 12 spki) \<and> length (drop 12 spki) = 32)
      \<and> (length spki = 32 \<longrightarrow> derivePublicKeyRaw P pem = Inr spki)
      \<and> (\<not> (length spki = 44 \<and> take 12 spki = ED25519_SPKI_PREFIX) \<longrightarrow>
           derivePublicKeyRaw P pem = Inr spki))"
  by (auto simp: derive_None derive_wrapped derive_other)

theorem derivePublicKeyRaw_cases_witness:
  "createPublicKey_spki test_platform (JStr ''PEM-A'') = Some (ED25519_SPKI_PREFIX @ test_key)
   \<and> length (ED25519_SPKI_PREFIX @ test_key) = 44
   \<and> take 12 (ED25519_SPKI_PREFIX @ test_key) = ED25519_SPKI_PREFIX
   \<and> derivePublicKeyRaw test_platform (JStr ''PEM-A'') = Inr (drop 12 (ED25519_SPKI_PREFIX @ test_key))
   \<and> length (drop 12 (ED25519_SPKI_PREFIX @ test_key)) = 32
   \<and> createPublicKey_spki test_platform (JStr ''garbage'') = None
   \<and> derivePublicKeyRaw test_platform (JStr ''garbage'') = Inl KeyParseError"
proof -
  have l: "length (ED25519_SPKI_PREFIX @ test_key) = 44"
    by (simp add: prefix_length test_key_length)
  have t: "take 12 (ED25519_SPKI_PREFIX @ test_key) = ED25519_SPKI_PREFIX"
    by (simp add: prefix_length)
  have lt: "length (ED25519_SPKI_PREFIX @ test_key) = 44
      \<and> take 12 (ED25519_SPKI_PREFIX @ test_key) = ED25519_SPKI_PREFIX"
    using l t by (rule conjI)
  have g: "createPublicKey_spki test_platform (JStr ''garbage'') = None"
    by (simp add: test_platform_def)
  note w = derivePublicKeyRaw_cases [of test_platform "JStr ''PEM-A''", THEN conjunct2, rule_format,
      OF test_spki, THEN conjunct1, rule_format, OF lt]
  note n = derivePublicKeyRaw_cases [of test_platform "JStr ''garbage''", THEN conjunct1, rule_format,
      OF g]
  show ?thesis
    by (intro conjI test_spki l t w [THEN conjunct1] w [THEN conjunct2] g n)
qed

text \<open>
  C2 as stated fails: the 44-byte encoding of an X25519 key (another algorithm
  identifier) is returned whole instead of raising, the prefix has 12 bytes, not 15, and
  an encoding of 15 + 32 bytes is returned whole, not cut to its last 32.
\<close>

theorem derivePublicKeyRaw_counterexample:
  "derivePublicKeyRaw (test_platform\<lparr>createPublicKey_spki := \<lambda>v. Some x25519_spki\<rparr>) (JStr ''PEM-X'')
     = Inr x25519_spki
   \<and> length x25519_spki = 44
   \<and> length ED25519_SPKI_PREFIX \<noteq> 15
   \<and> derivePublicKeyRaw
       (test_platform\<lparr>createPublicKey_spki := \<lambda>v. Some (ED25519_SPKI_PREFIX @ [0, 0, 0] @ test_key)\<rparr>)
       (JStr ''PEM-Y'')
     = Inr (ED25519_SPKI_PREFIX @ [0, 0, 0] @ test_key)
   \<and> length (ED25519_SPKI_PREFIX @ [0, 0, 0] @ test_key) = 15 + 32"
proof -
  have 1: "derivePublicKeyRaw (test_platform\<lparr>createPublicKey_spki := \<lambda>v. Some x25519_spki\<rparr>)
      (JStr ''PEM-X'') = Inr x25519_spki"
    by (rule derive_other) (simp_all add: x25519_spki_def ED25519_SPKI_PREFIX_def)
  have 2: "length x25519_spki = 44"
    by (simp add: x25519_spki_def test_key_length)
  have 3: "length ED25519_SPKI_PREFIX \<noteq> 15"
    by (simp add: prefix_length)
  have 4: "derivePublicKeyRaw
       (test_platform\<lparr>createPublicKey_spki := \<lambda>v. Some (ED25519_SPKI_PREFIX @ [0, 0, 0] @ test_key)\<rparr>)
       (JStr ''PEM-Y'') = Inr (ED25519_SPKI_PREFIX @ [0, 0, 0] @ test_key)"
    by (rule derive_other) (simp_all add: prefix_length test_key_length)
  have 5: "length (ED25519_SPKI_PREFIX @ [0, 0, 0] @ test_key) = 15 + 32"
    by (simp add: prefix_length test_key_length)
  show ?thesis
    by (intro conjI 1 2 3 4 5)
qed

subsection \<open>The persisted record\<close>

text \<open>
  C4, as the code has it. When the create path returns, the file at the path holds
  \<^verbatim>\<open>JSON.stringify\<close> of the object with the properties \<^verbatim>\<open>version\<close> (1), \<^verbatim>\<open>deviceId\<close>
  (the fingerprint of the generated public key: 64 hexadecimal characters, as every
  SHA-256 digest is), \<^verbatim>\<open>publicKeyPem\<close>, \<^verbatim>\<open>privateKeyPem\<close> (the two generated PEM
  strings) and \<^verbatim>\<open>createdAtMs\<close> (the clock), followed by a newline; the write asks for
  mode \<^verbatim>\<open>0o600\<close>, so that a file it creates has these bits less the umask and no
  permission beyond the owner's read and write. The load path returns an identity exactly
  when the file can be read and parsed, \<^verbatim>\<open>version === 1\<close>, the properties \<^verbatim>\<open>deviceId\<close>,
  \<^verbatim>\<open>publicKeyPem\<close> and \<^verbatim>\<open>privateKeyPem\<close> are truthy, and the public key can be parsed.
\<close>

theorem persisted_record_format:
  "(\<forall>fs' ident. (\<forall>i. tryLoad P fs path \<noteq> Inr (Some i))
        \<and> loadOrCreateDeviceIdentity P fs path = Inr (fs', ident) \<longrightarrow>
      (\<exists>f pub priv. files fs' path = Some f
         \<and> content f = JSON_stringify P (JObj [(''version'', JNum 1),
               (''deviceId'', JStr (deviceId ident)), (''publicKeyPem'', JStr pub),
               (''privateKeyPem'', JStr priv), (''createdAtMs'', JNum (of_int (Date_now P)))])
             @ [CHR 0x0A]
         \<and> generateKeyPairSync P = Some (pub, priv)
         \<and> fingerprintPublicKey P (JStr pub) = Inr (deviceId ident)
         \<and> ((\<forall>b. length (sha256_hex P b) = 64
                  \<and> set (sha256_hex P b) \<subseteq> set ''0123456789abcdef'') \<longrightarrow>
              length (deviceId ident) = 64 \<and> set (deviceId ident) \<subseteq> set ''0123456789abcdef'')
         \<and> (files fs path = None \<longrightarrow>
              mode f = 6 * 64 AND NOT (umask fs) \<and> mode f AND NOT (6 * 64) = 0)))
   \<and> ((\<exists>ident. tryLoad P fs path = Inr (Some ident)) \<longleftrightarrow>
        (\<exists>raw parsed. readFileSync fs path = Some raw \<and> JSON_parse P raw = Some parsed
           \<and> getProp parsed ''version'' = JNum 1 \<and> truthy (getProp parsed ''deviceId'')
           \<and> truthy (getProp parsed ''publicKeyPem'') \<and> truthy (getProp parsed ''privateKeyPem'')
           \<and> createPublicKey_spki P (getProp parsed ''publicKeyPem'') \<noteq> None))"
proof (intro conjI allI impI)
  fix fs' ident
  assume h: "(\<forall>i. tryLoad P fs path \<noteq> Inr (Some i))
        \<and> loadOrCreateDeviceIdentity P fs path = Inr (fs', ident)"
  then have n: "\<forall>i. tryLoad P fs path \<noteq> Inr (Some i)"
    and l: "loadOrCreateDeviceIdentity P fs path = Inr (fs', ident)"
    by blast+
  from l have c: "createAndPersist P fs path = Inr (fs', ident)"
    by (simp only: loadOrCreate_created [OF n])
  then have g: "generateIdentity P = Inr ident"
    and fs': "fs' = fs\<lparr>files := (files fs)(path \<mapsto>
          \<lparr>content = JSON_stringify P (stored ident (Date_now P)) @ [CHR 0x0A],
           mode = (case files fs path of None \<Rightarrow> 6 * 64 AND NOT (umask fs) | Some f \<Rightarrow> mode f)\<rparr>)\<rparr>"
    by (simp_all add: createAndPersist_Inr)
  from generateIdentity_Inr [OF g] obtain pub priv where
    k: "generateKeyPairSync P = Some (pub, priv)" "publicKeyPem ident = JStr pub"
      "privateKeyPem ident = JStr priv" "fingerprintPublicKey P (JStr pub) = Inr (deviceId ident)"
    by blast
  from fingerprint_Inr [OF k(4)] obtain raw where d: "deviceId ident = sha256_hex P raw"
    by blast
  have m: "(6 * 64 AND NOT (umask fs)) AND NOT (6 * 64) = (0 :: 32 word)"
    by (simp add: and.commute and.left_commute)
  show "\<exists>f pub priv. files fs' path = Some f
         \<and> content f = JSON_stringify P (JObj [(''version'', JNum 1),
               (''deviceId'', JStr (deviceId ident)), (''publicKeyPem'', JStr pub),
               (''privateKeyPem'', JStr priv), (''createdAtMs'', JNum (of_int (Date_now P)))])
             @ [CHR 0x0A]
         \<and> generateKeyPairSync P = Some (pub, priv)
         \<and> fingerprintPublicKey P (JStr pub) = Inr (deviceId ident)
         \<and> ((\<forall>b. length (sha256_hex P b) = 64
                  \<and> set (sha256_hex P b) \<subseteq> set ''0123456789abcdef'') \<longrightarrow>
              length (deviceId ident) = 64 \<and> set (deviceId ident) \<subseteq> set ''0123456789abcdef'')
         \<and> (files fs path = None \<longrightarrow>
              mode f = 6 * 64 AND NOT (umask fs) \<and> mode f AND NOT (6 * 64) = 0)"
    using k m by (simp add: fs' stored_def d)
next
  show "(\<exists>ident. tryLoad P fs path = Inr (Some ident)) \<longleftrightarrow>
        (\<exists>raw parsed. readFileSync fs path = Some raw \<and> JSON_parse P raw = Some parsed
           \<and> getProp parsed ''version'' = JNum 1 \<and> truthy (getProp parsed ''deviceId'')
           \<and> truthy (getProp parsed ''publicKeyPem'') \<and> truthy (getProp parsed ''privateKeyPem'')
           \<and> createPublicKey_spki P (getProp parsed ''publicKeyPem'') \<noteq> None)"
    unfolding tryLoad_Some_iff fingerprint_Inr_iff [symmetric] by blast
qed

theorem persisted_record_format_witness:
  "tryLoad test_platform empty_fs test_path = Inr None
   \<and> loadOrCreateDeviceIdentity test_platform empty_fs test_path = Inr (written_fs, test_identity)
   \<and> (\<exists>f pub priv. files written_fs test_path = Some f
         \<and> content f = JSON_stringify test_platform (JObj [(''version'', JNum 1),
               (''deviceId'', JStr (deviceId test_identity)), (''publicKeyPem'', JStr pub),
               (''privateKeyPem'', JStr priv),
               (''createdAtMs'', JNum (of_int (Date_now test_platform)))])
             @ [CHR 0x0A]
         \<and> generateKeyPairSync test_platform = Some (pub, priv)
         \<and> fingerprintPublicKey test_platform (JStr pub) = Inr (deviceId test_identity)
         \<and> ((\<forall>b. length (sha256_hex test_platform b) = 64
                  \<and> set (sha256_hex test_platform b) \<subseteq> set ''0123456789abcdef'') \<longrightarrow>
              length (deviceId test_identity) = 64
              \<and> set (deviceId test_identity) \<subseteq> set ''0123456789abcdef'')
         \<and> (files empty_fs test_path = None \<longrightarrow>
              mode f = 6 * 64 AND NOT (umask empty_fs) \<and> mode f AND NOT (6 * 64) = 0))
   \<and> files empty_fs test_path = None
   \<and> files written_fs test_path = Some \<lparr>content = doc_stored @ [CHR 0x0A], mode = 6 * 64\<rparr>
   \<and> doc_stored = JSON_stringify test_platform (JObj [(''version'', JNum 1),
               (''deviceId'', JStr fp_A), (''publicKeyPem'', JStr ''PEM-A''),
               (''privateKeyPem'', JStr ''KEY-A''), (''createdAtMs'', JNum 1700000000000)])
   \<and> length (deviceId test_identity) = 64
   \<and> set (deviceId test_identity) \<subseteq> set ''0123456789abcdef''
   \<and> (6 * 64 :: 32 word) AND NOT (umask empty_fs) = 6 * 64
   \<and> (\<exists>ident. tryLoad test_platform (test_fs (doc_stored @ [CHR 0x0A])) test_path = Inr (Some ident))"
proof -
  have h: "(\<forall>i. tryLoad test_platform empty_fs test_path \<noteq> Inr (Some i))
        \<and> loadOrCreateDeviceIdentity test_platform empty_fs test_path = Inr (written_fs, test_identity)"
    by (simp add: test_tryLoad_missing test_loadOrCreate_empty)
  note a = persisted_record_format [of test_platform empty_fs test_path, THEN conjunct1, rule_format,
      OF h]
  have hx: "\<forall>b. length (sha256_hex test_platform b) = 64
      \<and> set (sha256_hex test_platform b) \<subseteq> set ''0123456789abcdef''"
    by (simp add: test_platform_def fp_A_def fp_B_def fp_other_def)
  from a hx have x: "length (deviceId test_identity) = 64"
    "set (deviceId test_identity) \<subseteq> set ''0123456789abcdef''"
    by blast+
  have r: "\<exists>raw parsed. readFileSync (test_fs (doc_stored @ [CHR 0x0A])) test_path = Some raw
           \<and> JSON_parse test_platform raw = Some parsed
           \<and> getProp parsed ''version'' = JNum 1 \<and> truthy (getProp parsed ''deviceId'')
           \<and> truthy (getProp parsed ''publicKeyPem'') \<and> truthy (getProp parsed ''privateKeyPem'')
           \<and> createPublicKey_spki test_platform (getProp parsed ''publicKeyPem'') \<noteq> None"
    by (simp add: test_read test_parse_stored stored_def test_identity_def test_spki fp_nonempty)
  note b = persisted_record_format [of test_platform "test_fs (doc_stored @ [CHR 0x0A])" test_path,
      THEN conjunct2, THEN iffD2, OF r]
  have e: "files empty_fs test_path = None"
    by (simp add: empty_fs_def)
  have w: "files written_fs test_path = Some \<lparr>content = doc_stored @ [CHR 0x0A], mode = 6 * 64\<rparr>"
    by (simp add: written_fs_def)
  have j: "doc_stored = JSON_stringify test_platform (JObj [(''version'', JNum 1),
               (''deviceId'', JStr fp_A), (''publicKeyPem'', JStr ''PEM-A''),
               (''privateKeyPem'', JStr ''KEY-A''), (''createdAtMs'', JNum 1700000000000)])"
    by (simp add: test_platform_def stored_def test_identity_def)
  have u: "(6 * 64 :: 32 word) AND NOT (umask empty_fs) = 6 * 64"
    by (simp add: empty_fs_def)
  show ?thesis
    by (intro conjI test_tryLoad_missing test_loadOrCreate_empty a e w j x u b)
qed

text \<open>
  C4 as stated fails on the names: a record with \<^verbatim>\<open>version\<close> 1 and non-empty
  \<^verbatim>\<open>deviceId\<close>, \<^verbatim>\<open>publicKey\<close>, \<^verbatim>\<open>privateKey\<close> is not accepted, and the object written has
  no property \<^verbatim>\<open>publicKey\<close>, \<^verbatim>\<open>privateKey\<close> or \<^verbatim>\<open>createdAt\<close>. Nor is a record accepted
  whose three properties are present and non-empty while the public key does not parse.
  It fails on the mode as well where the file is there already: written over a file of
  mode \<^verbatim>\<open>0o644\<close>, the new record is in a file of mode \<^verbatim>\<open>0o644\<close>, which the group and
  the others can read.
\<close>

theorem persisted_field_names_counterexample:
  "JSON_parse test_platform doc_spec_names =
     Some (JObj [(''version'', JNum 1), (''deviceId'', JStr fp_A),
                 (''publicKey'', JStr ''PEM-A''), (''privateKey'', JStr ''KEY-A''),
                 (''createdAt'', JNum 1700000000000)])
   \<and> tryLoad test_platform (test_fs doc_spec_names) test_path = Inr None
   \<and> getProp (stored test_identity 1700000000000) ''publicKey'' = JUndefined
   \<and> getProp (stored test_identity 1700000000000) ''privateKey'' = JUndefined
   \<and> getProp (stored test_identity 1700000000000) ''createdAt'' = JUndefined
   \<and> getProp (stored test_identity 1700000000000) ''publicKeyPem'' = JStr ''PEM-A''
   \<and> getProp (stored test_identity 1700000000000) ''privateKeyPem'' = JStr ''KEY-A''
   \<and> getProp (stored test_identity 1700000000000) ''createdAtMs'' = JNum 1700000000000
   \<and> tryLoad test_platform (test_fs doc_bad_key) test_path = Inl KeyParseError
   \<and> loadOrCreateDeviceIdentity test_platform (test_fs doc_version2) test_path
       = Inr (test_fs (doc_stored @ [CHR 0x0A]), test_identity)
   \<and> files (test_fs (doc_stored @ [CHR 0x0A])) test_path
       = Some \<lparr>content = doc_stored @ [CHR 0x0A], mode = 6 * 64 + 4 * 8 + 4\<rparr>
   \<and> (6 * 64 + 4 * 8 + 4 :: 32 word) AND NOT (6 * 64) = 4 * 8 + 4"
proof -
  have s: "getProp (stored test_identity 1700000000000) ''publicKey'' = JUndefined"
    "getProp (stored test_identity 1700000000000) ''privateKey'' = JUndefined"
    "getProp (stored test_identity 1700000000000) ''createdAt'' = JUndefined"
    "getProp (stored test_identity 1700000000000) ''publicKeyPem'' = JStr ''PEM-A''"
    "getProp (stored test_identity 1700000000000) ''privateKeyPem'' = JStr ''KEY-A''"
    "getProp (stored test_identity 1700000000000) ''createdAtMs'' = JNum 1700000000000"
    by (simp_all add: stored_def test_identity_def)
  have o: "loadOrCreateDeviceIdentity test_platform (test_fs doc_version2) test_path
       = Inr (test_fs (doc_stored @ [CHR 0x0A]), test_identity)"
    by (simp add: loadOrCreateDeviceIdentity_def test_tryLoad_version2 test_create_over)
  have f: "files (test_fs (doc_stored @ [CHR 0x0A])) test_path
       = Some \<lparr>content = doc_stored @ [CHR 0x0A], mode = 6 * 64 + 4 * 8 + 4\<rparr>"
    by (simp add: test_fs_def)
  have m: "(6 * 64 + 4 * 8 + 4 :: 32 word) AND NOT (6 * 64) = 4 * 8 + 4"
    by simp
  show ?thesis
    by (intro conjI test_parse_spec_names test_tryLoad_spec_names s test_tryLoad_bad_key o f m)
qed

subsection \<open>Load faults are absorbed\<close>

text \<open>
  C5, as the code has it: whatever goes wrong while loading (the file is missing or
  cannot be read, it is not JSON, the version is not 1, one of the three properties is
  missing or empty, the public key does not parse), the fault is absorbed and the call
  goes on to generate and persist. Provided the key pair is generated and fingerprinted,
  the directory is there or can be made and the file can be written, the call returns
  the fresh identity, whose \<^verbatim>\<open>deviceId\<close> is the fingerprint of its public key, and the
  file holds the record of this identity. The call is not total: where one of the three
  fails, its error is the result.
\<close>

theorem load_faults_absorbed:
  assumes fault:
    "readFileSync fs path = None
     \<or> (\<exists>raw. readFileSync fs path = Some raw \<and> JSON_parse P raw = None)
     \<or> (\<exists>raw parsed. readFileSync fs path = Some raw \<and> JSON_parse P raw = Some parsed
          \<and> (getProp parsed ''version'' \<noteq> JNum 1
             \<or> \<not> truthy (getProp parsed ''deviceId'')
             \<or> \<not> truthy (getProp parsed ''publicKeyPem'')
             \<or> \<not> truthy (getProp parsed ''privateKeyPem'')
             \<or> createPublicKey_spki P (getProp parsed ''publicKeyPem'') = None))"
  shows "loadOrCreateDeviceIdentity P fs path = createAndPersist P fs path
       \<and> (\<forall>pub priv fp. generateKeyPairSync P = Some (pub, priv)
              \<and> fingerprintPublicKey P (JStr pub) = Inr fp
              \<and> dirname P path \<notin> mkdir_fails fs \<and> path \<notin> write_fails fs \<longrightarrow>
            loadOrCreateDeviceIdentity P fs path =
              Inr (fs\<lparr>files := (files fs)(path \<mapsto>
                     \<lparr>content = JSON_stringify P (JObj [(''version'', JNum 1),
                          (''deviceId'', JStr fp), (''publicKeyPem'', JStr pub),
                          (''privateKeyPem'', JStr priv),
                          (''createdAtMs'', JNum (of_int (Date_now P)))]) @ [CHR 0x0A],
                      mode = (case files fs path of
                                None \<Rightarrow> 6 * 64 AND NOT (umask fs)
                              | Some f \<Rightarrow> mode f)\<rparr>)\<rparr>,
                   \<lparr>deviceId = fp, publicKeyPem = JStr pub, privateKeyPem = JStr priv\<rparr>))"
proof -
  have n: "\<forall>i. tryLoad P fs path \<noteq> Inr (Some i)"
  proof (intro allI notI)
    fix i assume "tryLoad P fs path = Inr (Some i)"
    then obtain raw parsed fp where a: "readFileSync fs path = Some raw" "JSON_parse P raw = Some parsed"
      "getProp parsed ''version'' = JNum 1" "truthy (getProp parsed ''deviceId'')"
      "truthy (getProp parsed ''publicKeyPem'')" "truthy (getProp parsed ''privateKeyPem'')"
      "fingerprintPublicKey P (getProp parsed ''publicKeyPem'') = Inr fp"
      unfolding tryLoad_Some_iff by blast
    from a(7) have "createPublicKey_spki P (getProp parsed ''publicKeyPem'') \<noteq> None"
      using fingerprint_Inr_iff by blast
    with fault a(1-6) show False by auto
  qed
  have c: "loadOrCreateDeviceIdentity P fs path = createAndPersist P fs path"
    by (rule loadOrCreate_created [OF n])
  have g: "loadOrCreateDeviceIdentity P fs path =
              Inr (fs\<lparr>files := (files fs)(path \<mapsto>
                     \<lparr>content = JSON_stringify P (JObj [(''version'', JNum 1),
                          (''deviceId'', JStr fp), (''publicKeyPem'', JStr pub),
                          (''privateKeyPem'', JStr priv),
                          (''createdAtMs'', JNum (of_int (Date_now P)))]) @ [CHR 0x0A],
                      mode = (case files fs path of
                                None \<Rightarrow> 6 * 64 AND NOT (umask fs)
                              | Some f \<Rightarrow> mode f)\<rparr>)\<rparr>,
                   \<lparr>deviceId = fp, publicKeyPem = JStr pub, privateKeyPem = JStr priv\<rparr>)"
    if h: "generateKeyPairSync P = Some (pub, priv)
              \<and> fingerprintPublicKey P (JStr pub) = Inr fp
              \<and> dirname P path \<notin> mkdir_fails fs \<and> path \<notin> write_fails fs" for pub priv fp
    using h by (simp add: c createAndPersist_Inr generateIdentity_def stored_def)
  from c g show ?thesis by blast
qed

theorem load_faults_absorbed_witness:
  "readFileSync empty_fs test_path = None
   \<and> generateKeyPairSync test_platform = Some (''PEM-A'', ''KEY-A'')
   \<and> fingerprintPublicKey test_platform (JStr ''PEM-A'') = Inr fp_A
   \<and> dirname test_platform test_path \<notin> mkdir_fails empty_fs
   \<and> test_path \<notin> write_fails empty_fs
   \<and> loadOrCreateDeviceIdentity test_platform empty_fs test_path = Inr (written_fs, test_identity)
   \<and> files written_fs test_path = Some \<lparr>content = doc_stored @ [CHR 0x0A], mode = 6 * 64\<rparr>
   \<and> readFileSync (test_fs ''{oops'') test_path = Some ''{oops''
   \<and> JSON_parse test_platform ''{oops'' = None
   \<and> loadOrCreateDeviceIdentity test_platform (test_fs ''{oops'') test_path
       = Inr (test_fs (doc_stored @ [CHR 0x0A]), test_identity)
   \<and> readFileSync (test_fs doc_version2) test_path = Some doc_version2
   \<and> getProp (the (JSON_parse test_platform doc_version2)) ''version'' = JNum 2
   \<and> loadOrCreateDeviceIdentity test_platform (test_fs doc_version2) test_path
       = Inr (test_fs (doc_stored @ [CHR 0x0A]), test_identity)
   \<and> readFileSync (test_fs doc_no_privateKey) test_path = Some doc_no_privateKey
   \<and> getProp (the (JSON_parse test_platform doc_no_privateKey)) ''privateKeyPem'' = JUndefined
   \<and> loadOrCreateDeviceIdentity test_platform (test_fs doc_no_privateKey) test_path
       = Inr (test_fs (doc_stored @ [CHR 0x0A]), test_identity)
   \<and> files (test_fs (doc_stored @ [CHR 0x0A])) test_path
       = Some \<lparr>content = doc_stored @ [CHR 0x0A], mode = 6 * 64 + 4 * 8 + 4\<rparr>
   \<and> doc_stored = JSON_stringify test_platform (JObj [(''version'', JNum 1),
               (''deviceId'', JStr fp_A), (''publicKeyPem'', JStr ''PEM-A''),
               (''privateKeyPem'', JStr ''KEY-A''), (''createdAtMs'', JNum 1700000000000)])"
proof -
  have mk: "dirname test_platform test_path \<notin> mkdir_fails empty_fs"
    "dirname test_platform test_path \<notin> mkdir_fails (test_fs doc)" for doc
    by (simp_all add: empty_fs_def test_fs_def)
  have wr: "test_path \<notin> write_fails empty_fs" "test_path \<notin> write_fails (test_fs doc)" for doc
    by (simp_all add: empty_fs_def test_fs_def)
  have ok: "generateKeyPairSync test_platform = Some (''PEM-A'', ''KEY-A'')
      \<and> fingerprintPublicKey test_platform (JStr ''PEM-A'') = Inr fp_A
      \<and> dirname test_platform test_path \<notin> mkdir_fails empty_fs
      \<and> test_path \<notin> write_fails empty_fs"
    "generateKeyPairSync test_platform = Some (''PEM-A'', ''KEY-A'')
      \<and> fingerprintPublicKey test_platform (JStr ''PEM-A'') = Inr fp_A
      \<and> dirname test_platform test_path \<notin> mkdir_fails (test_fs doc)
      \<and> test_path \<notin> write_fails (test_fs doc)" for doc
    using test_keygen test_fingerprint mk wr by blast+
  have j: "doc_stored = JSON_stringify test_platform (JObj [(''version'', JNum 1),
               (''deviceId'', JStr fp_A), (''publicKeyPem'', JStr ''PEM-A''),
               (''privateKeyPem'', JStr ''KEY-A''), (''createdAtMs'', JNum 1700000000000)])"
    by (simp add: test_platform_def stored_def test_identity_def)
  have ident: "\<lparr>deviceId = fp_A, publicKeyPem = JStr ''PEM-A'', privateKeyPem = JStr ''KEY-A''\<rparr>
      = test_identity"
    by (simp add: test_identity_def)
  have new: "empty_fs\<lparr>files := (files empty_fs)(test_path \<mapsto>
        \<lparr>content = doc_stored @ [CHR 0x0A],
         mode = (case files empty_fs test_path of
                   None \<Rightarrow> 6 * 64 AND NOT (umask empty_fs) | Some f \<Rightarrow> mode f)\<rparr>)\<rparr> = written_fs"
    by (simp add: empty_fs_def written_fs_def)
  have over: "(test_fs doc)\<lparr>files := (files (test_fs doc))(test_path \<mapsto>
        \<lparr>content = doc_stored @ [CHR 0x0A],
         mode = (case files (test_fs doc) test_path of
                   None \<Rightarrow> 6 * 64 AND NOT (umask (test_fs doc)) | Some f \<Rightarrow> mode f)\<rparr>)\<rparr>
      = test_fs (doc_stored @ [CHR 0x0A])" for doc
    by (simp add: test_fs_def)
  note missing = load_faults_absorbed [where fs = empty_fs and path = test_path
      and P = test_platform, OF disjI1, OF test_read_empty, THEN conjunct2, rule_format, OF ok(1),
      unfolded test_now of_int_numeral j [symmetric] ident new]
  have f2: "\<exists>raw. readFileSync (test_fs ''{oops'') test_path = Some raw
      \<and> JSON_parse test_platform raw = None"
    by (simp add: test_read test_parse_invalid)
  note invalid = load_faults_absorbed [where fs = "test_fs ''{oops''" and path = test_path
      and P = test_platform, OF disjI2, OF disjI1, OF f2, THEN conjunct2, rule_format, OF ok(2),
      unfolded test_now of_int_numeral j [symmetric] ident over]
  have f3: "\<exists>raw parsed. readFileSync (test_fs doc_version2) test_path = Some raw
          \<and> JSON_parse test_platform raw = Some parsed
          \<and> (getProp parsed ''version'' \<noteq> JNum 1
             \<or> \<not> truthy (getProp parsed ''deviceId'')
             \<or> \<not> truthy (getProp parsed ''publicKeyPem'')
             \<or> \<not> truthy (getProp parsed ''privateKeyPem'')
             \<or> createPublicKey_spki test_platform (getProp parsed ''publicKeyPem'') = None)"
    by (simp add: test_read test_parse_version2)
  note version2 = load_faults_absorbed [where fs = "test_fs doc_version2" and path = test_path
      and P = test_platform, OF disjI2, OF disjI2, OF f3, THEN conjunct2, rule_format, OF ok(2),
      unfolded test_now of_int_numeral j [symmetric] ident over]
  have f4: "\<exists>raw parsed. readFileSync (test_fs doc_no_privateKey) test_path = Some raw
          \<and> JSON_parse test_platform raw = Some parsed
          \<and> (getProp parsed ''version'' \<noteq> JNum 1
             \<or> \<not> truthy (getProp parsed ''deviceId'')
             \<or> \<not> truthy (getProp parsed ''publicKeyPem'')
             \<or> \<not> truthy (getProp parsed ''privateKeyPem'')
             \<or> createPublicKey_spki test_platform (getProp parsed ''publicKeyPem'') = None)"
    by (simp add: test_read test_parse_no_privateKey)
  note no_private = load_faults_absorbed [where fs = "test_fs doc_no_privateKey"
      and path = test_path and P = test_platform, OF disjI2, OF disjI2, OF f4, THEN conjunct2,
      rule_format, OF ok(2), unfolded test_now of_int_numeral j [symmetric] ident over]
  have v: "getProp (the (JSON_parse test_platform doc_version2)) ''version'' = JNum 2"
    by (simp add: test_parse_version2)
  have p: "getProp (the (JSON_parse test_platform doc_no_privateKey)) ''privateKeyPem'' = JUndefined"
    by (simp add: test_parse_no_privateKey)
  have w: "files written_fs test_path = Some \<lparr>content = doc_stored @ [CHR 0x0A], mode = 6 * 64\<rparr>"
    by (simp add: written_fs_def)
  have f: "files (test_fs (doc_stored @ [CHR 0x0A])) test_path
       = Some \<lparr>content = doc_stored @ [CHR 0x0A], mode = 6 * 64 + 4 * 8 + 4\<rparr>"
    by (simp add: test_fs_def)
  show ?thesis
    by (intro conjI test_read_empty test_keygen test_fingerprint mk(1) wr(1) missing w test_read
        test_parse_invalid invalid v version2 p no_private f j)
qed

text \<open>
  C5 as stated fails where the create path fails: the file is not JSON and cannot be
  written, and the call ends with the error of the write; no file is there and the key
  generation fails, and the call ends with that error.
\<close>

theorem load_fault_then_create_failure_counterexample:
  "tryLoad test_platform ((test_fs ''{oops'')\<lparr>write_fails := {test_path}\<rparr>) test_path
     = Inl JsonSyntaxError
   \<and> loadOrCreateDeviceIdentity test_platform ((test_fs ''{oops'')\<lparr>write_fails := {test_path}\<rparr>)
        test_path
     = Inl WriteError
   \<and> tryLoad (test_platform\<lparr>generateKeyPairSync := None\<rparr>) empty_fs test_path = Inr None
   \<and> loadOrCreateDeviceIdentity (test_platform\<lparr>generateKeyPairSync := None\<rparr>) empty_fs test_path
     = Inl KeyGenError"
proof -
  let ?fs = "(test_fs ''{oops'')\<lparr>write_fails := {test_path}\<rparr>"
  let ?P = "test_platform\<lparr>generateKeyPairSync := None\<rparr>"
  have t1: "tryLoad test_platform ?fs test_path = Inl JsonSyntaxError"
    by (simp add: tryLoad_def existsSync_def readFileSync_def test_fs_def test_parse_invalid)
  have c1: "createAndPersist test_platform ?fs test_path = Inl WriteError"
    by (simp add: createAndPersist_def test_generate mkdirSync_def writeFileSync_def test_fs_def)
  have r1: "loadOrCreateDeviceIdentity test_platform ?fs test_path = Inl WriteError"
    by (simp add: loadOrCreateDeviceIdentity_def t1 c1)
  have t2: "tryLoad ?P empty_fs test_path = Inr None"
    by (simp add: tryLoad_def test_exists)
  have c2: "createAndPersist ?P empty_fs test_path = Inl KeyGenError"
    by (simp add: createAndPersist_def generateIdentity_def)
  have r2: "loadOrCreateDeviceIdentity ?P empty_fs test_path = Inl KeyGenError"
    by (simp add: loadOrCreateDeviceIdentity_def t2 c2)
  show ?thesis
    by (intro conjI t1 r1 t2 r2)
qed

subsection \<open>Write, then load\<close>

text \<open>
  C6, as the code has it: let a call return an identity, let the file be one that can be
  read, and let the platform read back what it writes (the record parses to itself; the
  fingerprint and the two PEM strings are not empty). Then a later call on the resulting
  file system, whatever key pair the generator would produce and whatever the clock says,
  returns the same identity and leaves the file system as it is, and by the same argument
  so does every call after it.
\<close>

theorem write_then_load_roundtrip:
  assumes first: "loadOrCreateDeviceIdentity P fs path = Inr (fs', ident)"
    and readable: "path \<notin> unreadable fs"
    and parse: "JSON_parse P (JSON_stringify P (stored ident (Date_now P)) @ [CHR 0x0A])
                  = Some (stored ident (Date_now P))"
    and nonempty: "deviceId ident \<noteq> []" "truthy (publicKeyPem ident)" "truthy (privateKeyPem ident)"
    and same: "createPublicKey_spki P' = createPublicKey_spki P" "sha256_hex P' = sha256_hex P"
      "JSON_parse P' = JSON_parse P"
  shows "loadOrCreateDeviceIdentity P' fs' path = Inr (fs', ident)"
proof -
  have "tryLoad P fs' path = Inr (Some ident)"
    using loadOrCreate_Inr [OF first]
  proof
    assume "tryLoad P fs path = Inr (Some ident) \<and> fs' = fs"
    then show ?thesis by simp
  next
    assume "(\<forall>i. tryLoad P fs path \<noteq> Inr (Some i)) \<and> createAndPersist P fs path = Inr (fs', ident)"
    then have g: "generateIdentity P = Inr ident"
      and fs': "fs' = fs\<lparr>files := (files fs)(path \<mapsto>
          \<lparr>content = JSON_stringify P (stored ident (Date_now P)) @ [CHR 0x0A],
           mode = (case files fs path of None \<Rightarrow> 6 * 64 AND NOT (umask fs) | Some f \<Rightarrow> mode f)\<rparr>)\<rparr>"
      by (simp_all add: createAndPersist_Inr)
    from generateIdentity_Inr [OF g] have fp: "fingerprintPublicKey P (publicKeyPem ident) = Inr (deviceId ident)"
      by auto
    have r: "readFileSync fs' path = Some (JSON_stringify P (stored ident (Date_now P)) @ [CHR 0x0A])"
      using readable by (simp add: fs' readFileSync_def)
    show ?thesis
      unfolding tryLoad_Some_iff
      using r parse nonempty fp by (simp add: stored_def)
  qed
  then have "tryLoad P' fs' path = Inr (Some ident)"
    by (simp add: tryLoad_platform_cong [OF same])
  then show ?thesis by (rule loadOrCreate_loaded)
qed

theorem write_then_load_roundtrip_witness:
  "loadOrCreateDeviceIdentity test_platform empty_fs test_path = Inr (written_fs, test_identity)
   \<and> test_path \<notin> unreadable empty_fs
   \<and> JSON_parse test_platform
        (JSON_stringify test_platform (stored test_identity (Date_now test_platform)) @ [CHR 0x0A])
       = Some (stored test_identity (Date_now test_platform))
   \<and> deviceId test_identity \<noteq> []
   \<and> truthy (publicKeyPem test_identity)
   \<and> truthy (privateKeyPem test_identity)
   \<and> loadOrCreateDeviceIdentity
        (test_platform\<lparr>generateKeyPairSync := None, Date_now := 1800000000000\<rparr>)
        written_fs test_path
       = Inr (written_fs, test_identity)"
proof -
  let ?P' = "test_platform\<lparr>generateKeyPairSync := None, Date_now := 1800000000000\<rparr>"
  have r: "test_path \<notin> unreadable empty_fs"
    by (simp add: empty_fs_def)
  have p: "JSON_parse test_platform
        (JSON_stringify test_platform (stored test_identity (Date_now test_platform)) @ [CHR 0x0A])
       = Some (stored test_identity (Date_now test_platform))"
    by (simp add: test_now test_stringify test_parse_stored)
  have n: "deviceId test_identity \<noteq> []" "truthy (publicKeyPem test_identity)"
    "truthy (privateKeyPem test_identity)"
    by (simp_all add: test_identity_def fp_nonempty)
  have s: "createPublicKey_spki ?P' = createPublicKey_spki test_platform"
    "sha256_hex ?P' = sha256_hex test_platform" "JSON_parse ?P' = JSON_parse test_platform"
    by simp_all
  note t = write_then_load_roundtrip [OF test_loadOrCreate_empty r p n s]
  show ?thesis
    by (intro conjI test_loadOrCreate_empty r p n t)
qed

text \<open>
  C6 as stated fails when the file cannot be read: the first call finds a write-only
  file, takes it for a failed load, generates the identity A and writes its record over
  the file, which stays write-only. The record is there and nothing touches it, yet the
  next call cannot read it either: with a generator that now produces the key B it
  returns the identity B and overwrites the record.
\<close>

theorem unreadable_file_counterexample:
  "loadOrCreateDeviceIdentity test_platform (write_only_fs ''{oops'') test_path
     = Inr (write_only_fs (doc_stored @ [CHR 0x0A]), test_identity)
   \<and> files (write_only_fs (doc_stored @ [CHR 0x0A])) test_path
     = Some \<lparr>content = doc_stored @ [CHR 0x0A], mode = 2 * 64\<rparr>
   \<and> JSON_parse test_platform (doc_stored @ [CHR 0x0A])
     = Some (stored test_identity 1700000000000)
   \<and> loadOrCreateDeviceIdentity
        (test_platform\<lparr>generateKeyPairSync := Some (''PEM-B'', ''KEY-B'')\<rparr>)
        (write_only_fs (doc_stored @ [CHR 0x0A])) test_path
     = Inr (write_only_fs (doc_stored_B @ [CHR 0x0A]), test_identity_B)
   \<and> deviceId test_identity_B \<noteq> deviceId test_identity
   \<and> publicKeyPem test_identity_B \<noteq> publicKeyPem test_identity
   \<and> files (write_only_fs (doc_stored_B @ [CHR 0x0A])) test_path
     \<noteq> files (write_only_fs (doc_stored @ [CHR 0x0A])) test_path"
proof -
  let ?PB = "test_platform\<lparr>generateKeyPairSync := Some (''PEM-B'', ''KEY-B'')\<rparr>"
  have c1: "createAndPersist test_platform (write_only_fs doc) test_path
      = Inr (write_only_fs (doc_stored @ [CHR 0x0A]), test_identity)" for doc
    unfolding createAndPersist_Inr
    by (simp add: test_generate test_now test_stringify) (simp add: write_only_fs_def)
  have 1: "loadOrCreateDeviceIdentity test_platform (write_only_fs ''{oops'') test_path
     = Inr (write_only_fs (doc_stored @ [CHR 0x0A]), test_identity)"
    by (simp add: loadOrCreateDeviceIdentity_def test_tryLoad_write_only c1)
  have 2: "files (write_only_fs (doc_stored @ [CHR 0x0A])) test_path
     = Some \<lparr>content = doc_stored @ [CHR 0x0A], mode = 2 * 64\<rparr>"
    by (simp add: write_only_fs_def)
  have "fingerprintPublicKey ?PB v = fingerprintPublicKey test_platform v" for v
    by (simp add: fingerprintPublicKey_def derivePublicKeyRaw_def split: sum.splits)
  then have fB: "fingerprintPublicKey ?PB (JStr ''PEM-B'') = Inr fp_B"
    by (simp add: test_fingerprint_B)
  have gB: "generateIdentity ?PB = Inr test_identity_B"
    by (simp add: generateIdentity_def fB test_identity_B_def)
  have dB: "dirname ?PB test_path \<notin> mkdir_fails (write_only_fs doc)" for doc
    by (simp add: write_only_fs_def)
  have c2: "createAndPersist ?PB (write_only_fs doc) test_path
      = Inr (write_only_fs (doc_stored_B @ [CHR 0x0A]), test_identity_B)" for doc
    unfolding createAndPersist_Inr
    by (simp add: gB dB test_now test_stringify_B) (simp add: write_only_fs_def)
  have 3: "loadOrCreateDeviceIdentity ?PB (write_only_fs (doc_stored @ [CHR 0x0A])) test_path
     = Inr (write_only_fs (doc_stored_B @ [CHR 0x0A]), test_identity_B)"
    by (simp add: loadOrCreateDeviceIdentity_def test_tryLoad_write_only c2)
  have 4: "deviceId test_identity_B \<noteq> deviceId test_identity"
    using fp_nonempty(3) by (simp add: test_identity_def test_identity_B_def)
  have 5: "publicKeyPem test_identity_B \<noteq> publicKeyPem test_identity"
    by (simp add: test_identity_def test_identity_B_def)
  have 6: "files (write_only_fs (doc_stored_B @ [CHR 0x0A])) test_path
     \<noteq> files (write_only_fs (doc_stored @ [CHR 0x0A])) test_path"
    by (simp add: write_only_fs_def doc_defs)
  show ?thesis
    by (intro conjI 1 2 test_parse_stored 3 4 5 6)
qed

subsection \<open>Failures after generation\<close>

text \<open>
  C9: when nothing is loaded and a key pair was generated, a directory that cannot be
  created or a file that cannot be written makes the call fail with that error; an error
  of reading or parsing the file is never the result.
\<close>

theorem create_failure_propagates:
  assumes "\<forall>i. tryLoad P fs path \<noteq> Inr (Some i)" and "generateIdentity P = Inr identity"
  shows "(dirname P path \<in> mkdir_fails fs \<longrightarrow>
            loadOrCreateDeviceIdentity P fs path = Inl MkdirError)
       \<and> (dirname P path \<notin> mkdir_fails fs \<and> path \<in> write_fails fs \<longrightarrow>
            loadOrCreateDeviceIdentity P fs path = Inl WriteError)
       \<and> loadOrCreateDeviceIdentity P fs path \<noteq> Inl ReadError
       \<and> loadOrCreateDeviceIdentity P fs path \<noteq> Inl JsonSyntaxError"
  using assms(2) createAndPersist_errors [of P fs path]
  by (simp add: loadOrCreate_created [OF assms(1)] createAndPersist_def mkdirSync_def writeFileSync_def)

theorem create_failure_propagates_witness:
  "tryLoad test_platform (empty_fs\<lparr>mkdir_fails := {''/home/u/.mission-control/identity''}\<rparr>) test_path
     = Inr None
   \<and> generateIdentity test_platform = Inr test_identity
   \<and> dirname test_platform test_path \<in> mkdir_fails (empty_fs\<lparr>mkdir_fails := {''/home/u/.mission-control/identity''}\<rparr>)
   \<and> loadOrCreateDeviceIdentity test_platform
        (empty_fs\<lparr>mkdir_fails := {''/home/u/.mission-control/identity''}\<rparr>) test_path
       = Inl MkdirError
   \<and> tryLoad test_platform ((test_fs ''{oops'')\<lparr>write_fails := {test_path}\<rparr>) test_path
       = Inl JsonSyntaxError
   \<and> dirname test_platform test_path \<notin> mkdir_fails ((test_fs ''{oops'')\<lparr>write_fails := {test_path}\<rparr>)
   \<and> test_path \<in> write_fails ((test_fs ''{oops'')\<lparr>write_fails := {test_path}\<rparr>)
   \<and> loadOrCreateDeviceIdentity test_platform ((test_fs ''{oops'')\<lparr>write_fails := {test_path}\<rparr>)
        test_path
       = Inl WriteError"
proof -
  let ?fs1 = "empty_fs\<lparr>mkdir_fails := {''/home/u/.mission-control/identity''}\<rparr>"
  let ?fs2 = "(test_fs ''{oops'')\<lparr>write_fails := {test_path}\<rparr>"
  have t1: "tryLoad test_platform ?fs1 test_path = Inr None"
    by (simp add: tryLoad_def existsSync_def empty_fs_def)
  have t2: "tryLoad test_platform ?fs2 test_path = Inl JsonSyntaxError"
    by (simp add: tryLoad_def existsSync_def readFileSync_def test_fs_def test_parse_invalid)
  have n1: "\<forall>i. tryLoad test_platform ?fs1 test_path \<noteq> Inr (Some i)"
    by (simp add: t1)
  have n2: "\<forall>i. tryLoad test_platform ?fs2 test_path \<noteq> Inr (Some i)"
    by (simp add: t2)
  have m1: "dirname test_platform test_path \<in> mkdir_fails ?fs1"
    by (simp add: test_dirname)
  have m2: "dirname test_platform test_path \<notin> mkdir_fails ?fs2"
    by (simp add: test_fs_def)
  have w2: "test_path \<in> write_fails ?fs2"
    by simp
  have mw: "dirname test_platform test_path \<notin> mkdir_fails ?fs2 \<and> test_path \<in> write_fails ?fs2"
    using m2 w2 by (rule conjI)
  note a = create_failure_propagates [OF n1 test_generate, THEN conjunct1, rule_format, OF m1]
  note b = create_failure_propagates [OF n2 test_generate, THEN conjunct2, THEN conjunct1,
      rule_format, OF mw]
  show ?thesis
    by (intro conjI t1 test_generate m1 a t2 m2 w2 b)
qed

end
